(* ===== verification/Prelude.thy ===== *)
theory Prelude
  imports Complex_Main "HOL-Library.Multiset"
begin

text \<open>
  Shared vocabulary of the development.  The C++ program stores its scalars as
  \<open>float\<close> (idealised here as \<^typ>\<open>real\<close>: rounding is not modelled), its
  viewport sizes and mouse coordinates as 32-bit \<open>int\<close> (modelled as \<^typ>\<open>int\<close>
  with the two's-complement wrap written out by \<open>i32\<close> where a subtraction can
  overflow), and its OpenGL object names as \<open>GLuint\<close> (\<^typ>\<open>nat\<close>).
  The theory also holds the named collections the component theories fill and the
  list, multiset and arithmetic lemmas several components share.
\<close>

type_synonym glfloat = real
type_synonym glint = int
type_synonym gluint = nat

named_theorems model_defs
  "definitions of the model unfolded when a concrete frame or event is evaluated"
named_theorems inv_preserved
  "one-step preservation lemmas of the component invariants"

subsection \<open>Clamping\<close>

definition clamp :: "real \<Rightarrow> real \<Rightarrow> real \<Rightarrow> real" where
  "clamp lo hi x = max lo (min hi x)"

lemma clamp_bounds [simp]:
  "lo \<le> hi \<Longrightarrow> lo \<le> clamp lo hi x"
  "lo \<le> hi \<Longrightarrow> clamp lo hi x \<le> hi"
  by (auto simp: clamp_def)

lemma clamp_inside [simp]: "lo \<le> x \<Longrightarrow> x \<le> hi \<Longrightarrow> clamp lo hi x = x"
  by (simp add: clamp_def)

subsection \<open>32-bit signed integers\<close>

text \<open>
  \<open>i32 x\<close> is the value a C \<open>int\<close> holds after an operation whose exact result is
  \<open>x\<close>, under two's-complement wrap-around (what the hardware does; the C standard
  calls the overflow undefined).
\<close>

definition i32 :: "int \<Rightarrow> int" where
  "i32 x = (x + 2 ^ 31) mod 2 ^ 32 - 2 ^ 31"

lemma i32_in_range [simp]: "- (2 ^ 31) \<le> i32 x" "i32 x < 2 ^ 31"
  by (simp_all add: i32_def)

lemma i32_id [simp]: "- (2 ^ 31) \<le> x \<Longrightarrow> x < 2 ^ 31 \<Longrightarrow> i32 x = x"
  by (simp add: i32_def)

subsection \<open>Sums over permuted lists\<close>

text \<open>
  The order-independence arguments reduce a fold over fragments to sums and
  products over the multiset of the fragments; these two lemmas carry that step.
\<close>

lemma sum_list_map_mset_eq:
  fixes f :: "'a \<Rightarrow> 'b::comm_monoid_add"
  shows "mset xs = mset ys \<Longrightarrow> sum_list (map f xs) = sum_list (map f ys)"
  by (metis mset_map sum_mset_sum_list)

lemma prod_list_map_mset_eq:
  fixes f :: "'a \<Rightarrow> 'b::comm_monoid_mult"
  shows "mset xs = mset ys \<Longrightarrow> prod_list (map f xs) = prod_list (map f ys)"
  by (metis mset_map prod_mset_prod_list)

subsection \<open>Queues\<close>

lemma list_all_tl [simp]: "list_all P xs \<Longrightarrow> list_all P (tl xs)"
  by (cases xs) simp_all

subsection \<open>Fresh names\<close>

text \<open>
  OpenGL hands out object and storage names that are not in use; the model draws
  them from a counter, as \<open>glGen*\<close> implementations do.  A block of \<open>k\<close> names
  taken at counter \<open>n\<close> is \<open>[n..<n + k]\<close>.
\<close>

lemma fresh_block_disjoint:
  "\<forall>x\<in>A. x < n \<Longrightarrow> set [n..<n + k] \<inter> A = {}"
  by auto

subsection \<open>Results\<close>

text \<open>
  A fallible operation returns \<open>error + 'a\<close>, \<open>Inl\<close> the error.  \<open>bindE\<close>
  sequences two of them and stops at the first error, as the source's early
  returns do.
\<close>

definition bindE :: "'e + 'a \<Rightarrow> ('a \<Rightarrow> 'e + 'b) \<Rightarrow> 'e + 'b" where
  "bindE r f = (case r of Inl e \<Rightarrow> Inl e | Inr a \<Rightarrow> f a)"

lemma bindE_simps [simp]:
  "bindE (Inl e) f = Inl e"
  "bindE (Inr a) f = f a"
  by (simp_all add: bindE_def)

lemma map_sum_eq_Inr [simp]: "map_sum f g r = Inr y \<longleftrightarrow> (\<exists>x. r = Inr x \<and> y = g x)"
  by (cases r) auto

lemma bindE_Inr_iff:
  "bindE r f = Inr b \<longleftrightarrow> (\<exists>a. r = Inr a \<and> f a = Inr b)"
  by (cases r) simp_all

end
