(* ===== verification/Matrix.thy ===== *)
theory Matrix
  imports Prelude
begin

text \<open>
  The part of glm the program uses: \<open>glm::vec4\<close> and \<open>glm::mat4\<close>, stored
  column-major as glm stores them (\<open>m[c]\<close> is column \<open>c\<close>; \<open>.x .y .z .w\<close> are
  rows 0 to 3), the zero matrix \<open>glm::mat4(0.0f)\<close>, and the two products
  \<open>operator*\<close> (matrix by vector, matrix by matrix).  The main lemma says that the
  combined matrix \<open>P * V\<close> that the program uploads acts on a vertex as \<open>P\<close>
  after \<open>V\<close>, which is why one uniform is enough for the shader.
\<close>

record vec4 =
  vx :: real
  vy :: real
  vz :: real
  vw :: real

record mat4 =
  col0 :: vec4
  col1 :: vec4
  col2 :: vec4
  col3 :: vec4

definition vzero :: vec4 where
  "vzero = \<lparr>vx = 0, vy = 0, vz = 0, vw = 0\<rparr>"

definition vadd :: "vec4 \<Rightarrow> vec4 \<Rightarrow> vec4" where
  "vadd a b = \<lparr>vx = vx a + vx b, vy = vy a + vy b, vz = vz a + vz b, vw = vw a + vw b\<rparr>"

definition vscale :: "real \<Rightarrow> vec4 \<Rightarrow> vec4" where
  "vscale k a = \<lparr>vx = k * vx a, vy = k * vy a, vz = k * vz a, vw = k * vw a\<rparr>"

definition mat_zero :: mat4 where
  "mat_zero = \<lparr>col0 = vzero, col1 = vzero, col2 = vzero, col3 = vzero\<rparr>"

text \<open>\<open>m * v\<close> in glm: the columns weighted by the components of \<open>v\<close>.\<close>

definition mat_vec :: "mat4 \<Rightarrow> vec4 \<Rightarrow> vec4" where
  "mat_vec m v =
     vadd (vadd (vscale (vx v) (col0 m)) (vscale (vy v) (col1 m)))
          (vadd (vscale (vz v) (col2 m)) (vscale (vw v) (col3 m)))"

text \<open>\<open>a * b\<close> in glm: column \<open>c\<close> of the product is \<open>a * b[c]\<close>.\<close>

definition mat_mul :: "mat4 \<Rightarrow> mat4 \<Rightarrow> mat4" where
  "mat_mul a b =
     \<lparr>col0 = mat_vec a (col0 b), col1 = mat_vec a (col1 b),
      col2 = mat_vec a (col2 b), col3 = mat_vec a (col3 b)\<rparr>"

text \<open>The dot product of two 3-vectors and row \<open>i < 3\<close> of the upper-left
  \<open>3 \<times> 3\<close> block of a matrix (the rotation part of a rigid transform).\<close>

definition dot3 :: "real \<times> real \<times> real \<Rightarrow> real \<times> real \<times> real \<Rightarrow> real" where
  "dot3 a b = (case a of (a1, a2, a3) \<Rightarrow> case b of (b1, b2, b3) \<Rightarrow> a1 * b1 + a2 * b2 + a3 * b3)"

definition mrow3 :: "mat4 \<Rightarrow> nat \<Rightarrow> real \<times> real \<times> real" where
  "mrow3 m i =
     (if i = 0 then (vx (col0 m), vx (col1 m), vx (col2 m))
      else if i = 1 then (vy (col0 m), vy (col1 m), vy (col2 m))
      else (vz (col0 m), vz (col1 m), vz (col2 m)))"

lemmas vec_ops = vzero_def vadd_def vscale_def
lemmas mat_ops = mat_zero_def mat_vec_def mat_mul_def vec_ops

subsection \<open>Linearity and composition\<close>

lemma mat_vec_vadd: "mat_vec m (vadd a b) = vadd (mat_vec m a) (mat_vec m b)"
  by (simp add: mat_vec_def vec_ops algebra_simps)

lemma mat_vec_vscale: "mat_vec m (vscale k a) = vscale k (mat_vec m a)"
  by (simp add: mat_vec_def vec_ops algebra_simps)

lemma mat_vec_mat_mul: "mat_vec (mat_mul a b) v = mat_vec a (mat_vec b v)"
proof -
  have "mat_vec (mat_mul a b) v =
     vadd (vadd (vscale (vx v) (mat_vec a (col0 b))) (vscale (vy v) (mat_vec a (col1 b))))
          (vadd (vscale (vz v) (mat_vec a (col2 b))) (vscale (vw v) (mat_vec a (col3 b))))"
    by (simp add: mat_vec_def mat_mul_def)
  also have "\<dots> = mat_vec a (mat_vec b v)"
    by (simp add: mat_vec_def [of b] mat_vec_vadd mat_vec_vscale)
  finally show ?thesis .
qed

lemma mat_eqI: "(\<And>v. mat_vec a v = mat_vec b v) \<Longrightarrow> a = b"
proof -
  assume h: "\<And>v. mat_vec a v = mat_vec b v"
  have e: "\<And>m. col0 m = mat_vec m \<lparr>vx = 1, vy = 0, vz = 0, vw = 0\<rparr>"
          "\<And>m. col1 m = mat_vec m \<lparr>vx = 0, vy = 1, vz = 0, vw = 0\<rparr>"
          "\<And>m. col2 m = mat_vec m \<lparr>vx = 0, vy = 0, vz = 1, vw = 0\<rparr>"
          "\<And>m. col3 m = mat_vec m \<lparr>vx = 0, vy = 0, vz = 0, vw = 1\<rparr>"
    by (simp_all add: mat_vec_def vec_ops)
  show "a = b"
    by (rule mat4.equality) (simp_all add: e h)
qed

lemma mat_mul_assoc: "mat_mul (mat_mul a b) c = mat_mul a (mat_mul b c)"
  by (rule mat_eqI) (simp add: mat_vec_mat_mul)

end
