(* ===== verification/Projection.thy ===== *)
theory Projection
  imports Matrix
begin

text \<open>
  The projection model of \<open>src/src/main.cpp\<close>: the globals \<open>projectionMatrix\<close>,
  \<open>fzNear\<close>, \<open>fzFar\<close> and \<open>frustumScale\<close> of the anonymous namespace (lines
  14--17), set up by the first part of \<open>init()\<close> (lines 36--47) and rescaled by
  the first part of \<open>resize()\<close> (lines 76--77).  The fixed-function stages of
  OpenGL that consume the matrix (perspective divide, \<open>glDepthRange(0, 1)\<close> of
  line 56, \<open>glViewport(0, 0, w, h)\<close> of line 82) are written out as functions so
  that the theorems speak of window coordinates and depth values.
  The lemmas show: the near plane maps to depth 0 and the far plane to depth 1; depth
  grows strictly with distance between them (what \<open>GL_LEQUAL\<close> depth testing
  relies on); \<open>resize\<close> leaves the depth mapping untouched and makes the pixel scale
  equal on both axes.
\<close>

record proj_state =
  projectionMatrix :: mat4
  fzNear :: glfloat
  fzFar :: glfloat
  frustumScale :: glfloat

text \<open>\<open>DEGREE_TO_RAD\<close> comes from \<open>Utils.h\<close>, which is not part of the sources.\<close>

definition DEGREE_TO_RAD :: real where
  "DEGREE_TO_RAD = pi / 180"

text \<open>
  The library's reference: \<open>glm::perspective(fovy, aspect, zNear, zFar)\<close> of
  \<open>glm/gtc/matrix_transform.inl\<close> (right-handed, clip depth in \<open>[-1, 1]\<close>), on
  the zero matrix with \<open>fovy\<close> in radians.  The program builds its matrix by hand
  instead; \<open>glm_perspective_resize\<close> shows the two agree.
\<close>

definition glm_perspective :: "real \<Rightarrow> real \<Rightarrow> real \<Rightarrow> real \<Rightarrow> mat4" where
  "glm_perspective fovy aspect zNear zFar =
     (let tanHalfFovy = tan (fovy / 2)
      in \<lparr>col0 = \<lparr>vx = 1 / (aspect * tanHalfFovy), vy = 0, vz = 0, vw = 0\<rparr>,
          col1 = \<lparr>vx = 0, vy = 1 / tanHalfFovy, vz = 0, vw = 0\<rparr>,
          col2 = \<lparr>vx = 0, vy = 0, vz = - (zFar + zNear) / (zFar - zNear), vw = -1\<rparr>,
          col3 = \<lparr>vx = 0, vy = 0, vz = - (2 * zFar * zNear) / (zFar - zNear), vw = 0\<rparr>\<rparr>)"

text \<open>
  Lines 36--47 with the three literals \<open>.10f\<close>, \<open>1000.0f\<close> and \<open>45.0f\<close> as
  parameters (the spec's \<open>configure(fovDegrees, near, far)\<close>); the matrix is built
  by the same sequence of element writes on \<open>glm::mat4(0.0f)\<close>.
\<close>

definition init_projection_with :: "real \<Rightarrow> real \<Rightarrow> real \<Rightarrow> proj_state" where
  "init_projection_with fieldOfViewDeg near far =
     (let fFovRad = fieldOfViewDeg * DEGREE_TO_RAD;
          fs = 1 / tan (fFovRad / 2);
          m0 = mat_zero;
          m1 = m0\<lparr>col0 := (col0 m0)\<lparr>vx := fs\<rparr>\<rparr>;
          m2 = m1\<lparr>col1 := (col1 m1)\<lparr>vy := fs\<rparr>\<rparr>;
          m3 = m2\<lparr>col2 := (col2 m2)\<lparr>vz := (far + near) / (near - far)\<rparr>\<rparr>;
          m4 = m3\<lparr>col2 := (col2 m3)\<lparr>vw := -1\<rparr>\<rparr>;
          m5 = m4\<lparr>col3 := (col3 m4)\<lparr>vz := (2 * far * near) / (near - far)\<rparr>\<rparr>
      in \<lparr>projectionMatrix = m5, fzNear = near, fzFar = far, frustumScale = fs\<rparr>)"

definition init_projection :: proj_state where
  "init_projection = init_projection_with 45 (1 / 10) 1000"

text \<open>
  Lines 76--77.  \<open>h / (float)w\<close> is a float division; for \<open>w = 0\<close> C++ yields an
  infinity or NaN, which the real-valued model does not represent (HOL's \<open>x / 0 = 0\<close>),
  so the theorems about the matrix entries assume \<open>0 < w\<close>.
\<close>

definition resize_projection :: "glint \<Rightarrow> glint \<Rightarrow> proj_state \<Rightarrow> proj_state" where
  "resize_projection w h p =
     (let m = projectionMatrix p;
          m1 = m\<lparr>col0 := (col0 m)\<lparr>vx := frustumScale p * (real_of_int h / real_of_int w)\<rparr>\<rparr>;
          m2 = m1\<lparr>col1 := (col1 m1)\<lparr>vy := frustumScale p\<rparr>\<rparr>
      in p\<lparr>projectionMatrix := m2\<rparr>)"

subsection \<open>The fixed-function stages after the vertex shader\<close>

text \<open>An eye-space position \<open>(x, y, z, 1)\<close>; the camera looks down \<open>-z\<close>.\<close>

definition eye_point :: "real \<Rightarrow> real \<Rightarrow> real \<Rightarrow> vec4" where
  "eye_point x y z = \<lparr>vx = x, vy = y, vz = z, vw = 1\<rparr>"

text \<open>Perspective divide of a clip-space position.\<close>

definition ndc_x :: "vec4 \<Rightarrow> real" where "ndc_x c = vx c / vw c"
definition ndc_y :: "vec4 \<Rightarrow> real" where "ndc_y c = vy c / vw c"
definition ndc_z :: "vec4 \<Rightarrow> real" where "ndc_z c = vz c / vw c"

text \<open>\<open>glDepthRange(dn, df)\<close> and \<open>glViewport(0, 0, w, h)\<close>.\<close>

definition window_depth :: "real \<Rightarrow> real \<Rightarrow> real \<Rightarrow> real" where
  "window_depth dn df z = (z + 1) / 2 * (df - dn) + dn"

definition window_x :: "glint \<Rightarrow> real \<Rightarrow> real" where
  "window_x w x = (x + 1) * (real_of_int w / 2)"

definition window_y :: "glint \<Rightarrow> real \<Rightarrow> real" where
  "window_y h y = (y + 1) * (real_of_int h / 2)"

text \<open>The depth the program's pipeline gives an eye-space point: depth range \<open>(0, 1)\<close>.\<close>

definition point_depth :: "proj_state \<Rightarrow> real \<Rightarrow> real \<Rightarrow> real \<Rightarrow> real" where
  "point_depth p x y z = window_depth 0 1 (ndc_z (mat_vec (projectionMatrix p) (eye_point x y z)))"

text \<open>The two entries of the depth row written by lines 45 and 47.\<close>

definition depth_a :: "proj_state \<Rightarrow> real" where
  "depth_a p = (fzFar p + fzNear p) / (fzNear p - fzFar p)"
definition depth_b :: "proj_state \<Rightarrow> real" where
  "depth_b p = (2 * fzFar p * fzNear p) / (fzNear p - fzFar p)"

lemmas stage_defs = eye_point_def ndc_x_def ndc_y_def ndc_z_def window_depth_def
  window_x_def window_y_def point_depth_def

subsection \<open>The matrix the program builds\<close>

text \<open>
  The entries of the projection matrix after \<open>init\<close> and any number of
  \<open>resize\<close> calls: every computation below goes through these two lemmas.
\<close>

lemma init_projection_with_matrix:
  "projectionMatrix (init_projection_with fov n f) =
     \<lparr>col0 = \<lparr>vx = 1 / tan (fov * DEGREE_TO_RAD / 2), vy = 0, vz = 0, vw = 0\<rparr>,
      col1 = \<lparr>vx = 0, vy = 1 / tan (fov * DEGREE_TO_RAD / 2), vz = 0, vw = 0\<rparr>,
      col2 = \<lparr>vx = 0, vy = 0, vz = (f + n) / (n - f), vw = -1\<rparr>,
      col3 = \<lparr>vx = 0, vy = 0, vz = (2 * f * n) / (n - f), vw = 0\<rparr>\<rparr>"
  "fzNear (init_projection_with fov n f) = n"
  "fzFar (init_projection_with fov n f) = f"
  "frustumScale (init_projection_with fov n f) = 1 / tan (fov * DEGREE_TO_RAD / 2)"
  by (simp_all add: init_projection_with_def mat_zero_def vzero_def Let_def)

lemma resize_projection_fields [simp]:
  "fzNear (resize_projection w h p) = fzNear p"
  "fzFar (resize_projection w h p) = fzFar p"
  "frustumScale (resize_projection w h p) = frustumScale p"
  "col2 (projectionMatrix (resize_projection w h p)) = col2 (projectionMatrix p)"
  "col3 (projectionMatrix (resize_projection w h p)) = col3 (projectionMatrix p)"
  "col0 (projectionMatrix (resize_projection w h p)) =
     (col0 (projectionMatrix p))\<lparr>vx := frustumScale p * (real_of_int h / real_of_int w)\<rparr>"
  "col1 (projectionMatrix (resize_projection w h p)) =
     (col1 (projectionMatrix p))\<lparr>vy := frustumScale p\<rparr>"
  by (simp_all add: resize_projection_def Let_def)

text \<open>Each \<open>resize\<close> rewrites both scales from \<open>frustumScale\<close>: the last one wins.\<close>

lemma resize_resize:
  "resize_projection w2 h2 (resize_projection w1 h1 p) = resize_projection w2 h2 p"
  by (simp add: resize_projection_def Let_def)

text \<open>After \<open>init\<close> and a \<open>resize(w, h)\<close> to a positive size, the hand-built matrix
  is glm's perspective matrix for the aspect ratio \<open>w / h\<close>.\<close>

lemma glm_perspective_resize:
  assumes "0 < w" "0 < h"
  shows "projectionMatrix (resize_projection w h (init_projection_with fov n f)) =
           glm_perspective (fov * DEGREE_TO_RAD) (real_of_int w / real_of_int h) n f"
proof -
  have x: "1 / tan (fov * DEGREE_TO_RAD / 2) * (real_of_int h / real_of_int w) =
             1 / (real_of_int w / real_of_int h * tan (fov * DEGREE_TO_RAD / 2))"
    using assms by (simp add: field_simps)
  have e: "n - f = - (f - n)" by simp
  have z: "(f + n) / (n - f) = - (f + n) / (f - n)" "2 * f * n / (n - f) = - (2 * f * n) / (f - n)"
    unfolding e by (simp_all only: divide_minus_right minus_divide_left)
  show ?thesis
    by (simp add: glm_perspective_def resize_projection_def init_projection_with_matrix Let_def x z)
qed

text \<open>
  The shape every reachable projection state has: the perspective matrix of its
  near and far planes, with the \<open>x\<close> scale free (it is the only entry \<open>resize\<close>
  changes apart from rewriting the \<open>y\<close> scale with the value it already has).
\<close>

definition perspective_shape :: "proj_state \<Rightarrow> bool" where
  "perspective_shape p \<longleftrightarrow>
     0 < fzNear p \<and> fzNear p < fzFar p \<and>
     col1 (projectionMatrix p) = \<lparr>vx = 0, vy = frustumScale p, vz = 0, vw = 0\<rparr> \<and>
     col2 (projectionMatrix p) =
       \<lparr>vx = 0, vy = 0, vz = (fzFar p + fzNear p) / (fzNear p - fzFar p), vw = -1\<rparr> \<and>
     col3 (projectionMatrix p) =
       \<lparr>vx = 0, vy = 0, vz = (2 * fzFar p * fzNear p) / (fzNear p - fzFar p), vw = 0\<rparr> \<and>
     vy (col0 (projectionMatrix p)) = 0 \<and> vz (col0 (projectionMatrix p)) = 0 \<and>
     vw (col0 (projectionMatrix p)) = 0"

lemma perspective_shape_init [inv_preserved]:
  "0 < n \<Longrightarrow> n < f \<Longrightarrow> perspective_shape (init_projection_with fov n f)"
  by (simp add: perspective_shape_def init_projection_with_matrix)

lemma perspective_shape_resize [inv_preserved]:
  "perspective_shape p \<Longrightarrow> perspective_shape (resize_projection w h p)"
  by (simp add: perspective_shape_def)

lemma perspective_shape_init_projection: "perspective_shape init_projection"
  unfolding init_projection_def by (rule perspective_shape_init) simp_all

text \<open>A projection state after \<open>init\<close> and the resizes of a run, in order.\<close>

lemma perspective_shape_resizes:
  "perspective_shape p \<Longrightarrow>
     perspective_shape (foldl (\<lambda>q (w, h). resize_projection w h q) p rs)"
  by (induction rs arbitrary: p) (auto intro: perspective_shape_resize)

subsection \<open>Depth\<close>

lemma clip_of_shape:
  assumes "perspective_shape p"
  shows "mat_vec (projectionMatrix p) (eye_point x y z) =
    \<lparr>vx = vx (col0 (projectionMatrix p)) * x, vy = frustumScale p * y,
     vz = depth_a p * z + depth_b p, vw = - z\<rparr>"
  using assms by (simp add: perspective_shape_def depth_a_def depth_b_def eye_point_def mat_ops)

lemma point_depth_shape:
  assumes "perspective_shape p"
  shows "point_depth p x y z = ((depth_a p * z + depth_b p) / - z + 1) / 2"
  by (simp add: point_depth_def clip_of_shape [OF assms] ndc_z_def window_depth_def)

lemma point_depth_xy: "perspective_shape p \<Longrightarrow> point_depth p x y z = point_depth p 0 0 z"
  by (simp add: point_depth_shape)

lemma depth_b_neg: "perspective_shape p \<Longrightarrow> depth_b p < 0"
  by (simp add: perspective_shape_def depth_b_def divide_pos_neg)

lemma point_depth_ahead:
  assumes "perspective_shape p" "0 < d"
  shows "point_depth p x y (- d) = (depth_b p / d - depth_a p + 1) / 2"
proof -
  have "(depth_a p * (- d) + depth_b p) / (- (- d)) = depth_b p / d - depth_a p"
    using assms(2) by (simp add: diff_divide_distrib)
  then show ?thesis by (simp add: point_depth_shape [OF assms(1)])
qed

lemma depth_near_far:
  assumes "perspective_shape p"
  shows "point_depth p 0 0 (- fzNear p) = 0 \<and> point_depth p 0 0 (- fzFar p) = 1"
proof -
  let ?n = "fzNear p" and ?f = "fzFar p"
  from assms have n: "0 < ?n" "?n < ?f" by (simp_all add: perspective_shape_def)
  then have nf: "?n - ?f \<noteq> 0" by simp
  have bn: "depth_b p / ?n = 2 * ?f / (?n - ?f)" and bf: "depth_b p / ?f = 2 * ?n / (?n - ?f)"
    using n nf by (simp_all add: depth_b_def field_simps)
  have "(2 * ?f - (?f + ?n)) / (?n - ?f) = -1"
    using nf by (simp add: divide_eq_eq)
  then have "2 * ?f / (?n - ?f) - depth_a p + 1 = 0"
    by (simp add: depth_a_def diff_divide_distrib [symmetric])
  then have near: "point_depth p 0 0 (- ?n) = 0"
    using n by (simp add: point_depth_ahead [OF assms] bn)
  have "(2 * ?n - (?f + ?n)) / (?n - ?f) = 1"
    using nf by (simp add: divide_eq_eq)
  then have "2 * ?n / (?n - ?f) - depth_a p + 1 = 2"
    by (simp add: depth_a_def diff_divide_distrib [symmetric])
  then have far: "point_depth p 0 0 (- ?f) = 1"
    using n by (simp add: point_depth_ahead [OF assms] bf)
  from near far show ?thesis ..
qed

lemma depth_strict_mono:
  assumes "perspective_shape p" "0 < d1" "d1 < d2"
  shows "point_depth p x y (- d1) < point_depth p x' y' (- d2)"
proof -
  have "depth_b p / d1 < depth_b p / d2"
    using depth_b_neg [OF assms(1)] assms(2,3) by (simp add: divide_strict_left_mono_neg)
  then have "depth_b p / d1 - depth_a p + 1 < depth_b p / d2 - depth_a p + 1"
    by (rule add_strict_right_mono [OF diff_strict_right_mono])
  then have "(depth_b p / d1 - depth_a p + 1) / 2 < (depth_b p / d2 - depth_a p + 1) / 2"
    by (rule divide_strict_right_mono) simp
  moreover have "0 < d2" using assms(2,3) by simp
  ultimately show ?thesis
    by (simp only: point_depth_ahead [OF assms(1,2)] point_depth_ahead [OF assms(1) \<open>0 < d2\<close>])
qed


subsection \<open>Aspect ratio\<close>

lemma resize_clip:
  assumes "perspective_shape p"
  shows "mat_vec (projectionMatrix (resize_projection w h p)) (eye_point x y z) =
    \<lparr>vx = frustumScale p * (real_of_int h / real_of_int w) * x, vy = frustumScale p * y,
     vz = depth_a p * z + depth_b p, vw = - z\<rparr>"
proof -
  have "perspective_shape (resize_projection w h p)"
    using assms by (rule perspective_shape_resize)
  then show ?thesis
    by (simp add: clip_of_shape depth_a_def depth_b_def)
qed

lemma resize_pixel_offsets:
  assumes "perspective_shape p" "0 < w" "0 < d"
  shows "window_x w (ndc_x (mat_vec (projectionMatrix (resize_projection w h p)) (eye_point x y (- d))))
           - real_of_int w / 2 = frustumScale p * real_of_int h * x / (2 * d)"
    and "window_y h (ndc_y (mat_vec (projectionMatrix (resize_projection w h p)) (eye_point x y (- d))))
           - real_of_int h / 2 = frustumScale p * real_of_int h * y / (2 * d)"
  using assms(2,3)
  by (simp_all add: resize_clip [OF assms(1)] ndc_x_def ndc_y_def window_x_def window_y_def field_simps)

lemma resizes_fields [simp]:
  "fzNear (foldl (\<lambda>q (w, h). resize_projection w h q) p rs) = fzNear p"
  "fzFar (foldl (\<lambda>q (w, h). resize_projection w h q) p rs) = fzFar p"
  "frustumScale (foldl (\<lambda>q (w, h). resize_projection w h q) p rs) = frustumScale p"
  by (induction rs arbitrary: p) auto

subsection \<open>Properties of the projection the program sets up\<close>

text \<open>
  C7: for every near and far plane with \<open>0 < near < far\<close> and whatever sequence of
  window resizes followed \<open>init\<close>, the centre of the near plane gets depth 0 and the
  centre of the far plane depth 1 (OpenGL's \<open>[-1, 1]\<close> clip depth mapped by
  \<open>glDepthRange(0, 1)\<close>).
\<close>

theorem projection_near_far_depth:
  fixes fov :: real and rs :: "(glint \<times> glint) list"
  assumes "0 < n" "n < f"
  defines "p \<equiv> foldl (\<lambda>q (w, h). resize_projection w h q) (init_projection_with fov n f) rs"
  shows "point_depth p 0 0 (- n) = 0 \<and> point_depth p 0 0 (- f) = 1"
proof -
  have "perspective_shape p"
    unfolding p_def using assms(1,2) by (intro perspective_shape_resizes perspective_shape_init)
  then show ?thesis
    using depth_near_far [of p] by (simp add: p_def init_projection_with_matrix)
qed

theorem projection_near_far_depth_witness:
  "0 < (1 / 10 :: real) \<and> (1 / 10 :: real) < 1000 \<and>
   point_depth (foldl (\<lambda>q (w, h). resize_projection w h q) init_projection [(800, 800)]) 0 0 (- (1 / 10)) = 0 \<and>
   point_depth (foldl (\<lambda>q (w, h). resize_projection w h q) init_projection [(800, 800)]) 0 0 (- 1000) = 1"
  using projection_near_far_depth [of "1 / 10" 1000 45 "[(800, 800)]"]
  by (simp add: init_projection_def)

text \<open>
  C8: between the near and the far plane the window depth stays in \<open>[0, 1]\<close> and
  grows strictly with the distance from the camera, so the \<open>GL_LEQUAL\<close> depth test
  enabled by \<open>init\<close> keeps the nearer of two opaque fragments.
\<close>

theorem projection_depth_order:
  fixes fov :: real and rs :: "(glint \<times> glint) list" and x y x' y' :: real
  assumes "0 < n" "n < f" "n \<le> d1" "d1 < d2" "d2 \<le> f"
  defines "p \<equiv> foldl (\<lambda>q (w, h). resize_projection w h q) (init_projection_with fov n f) rs"
  shows "0 \<le> point_depth p x y (- d1) \<and> point_depth p x y (- d1) < point_depth p x' y' (- d2)
         \<and> point_depth p x' y' (- d2) \<le> 1"
proof -
  have sh: "perspective_shape p"
    unfolding p_def using assms(1,2) by (intro perspective_shape_resizes perspective_shape_init)
  have nf: "fzNear p = n" "fzFar p = f" by (simp_all add: p_def init_projection_with_matrix)
  have mono: "\<And>a b x y x' y'. 0 < a \<Longrightarrow> a < b \<Longrightarrow> point_depth p x y (- a) < point_depth p x' y' (- b)"
    using sh by (rule depth_strict_mono)
  have ends: "point_depth p 0 0 (- n) = 0" "point_depth p 0 0 (- f) = 1"
    using depth_near_far [OF sh] nf by simp_all
  have lo: "0 \<le> point_depth p x y (- d1)"
  proof (cases "d1 = n")
    case True
    then show ?thesis using ends point_depth_xy [OF sh, of x y] by simp
  next
    case False
    then show ?thesis using mono [of n d1 0 0 x y] ends assms by simp
  qed
  have hi: "point_depth p x' y' (- d2) \<le> 1"
  proof (cases "d2 = f")
    case True
    then show ?thesis using ends point_depth_xy [OF sh, of x' y'] by simp
  next
    case False
    then show ?thesis using mono [of d2 f x' y' 0 0] ends assms by simp
  qed
  show ?thesis using lo hi mono [of d1 d2 x y x' y'] assms by simp
qed

theorem projection_depth_order_witness:
  "point_depth (foldl (\<lambda>q (w, h). resize_projection w h q) init_projection [(800, 800)]) 0 0 (- 1) <
   point_depth (foldl (\<lambda>q (w, h). resize_projection w h q) init_projection [(800, 800)]) 0 0 (- 2)"
  using projection_depth_order [of "1 / 10" 1000 1 2 45 "[(800, 800)]" 0 0 0 0]
  by (simp add: init_projection_def)

text \<open>
  C27: after \<open>resize(w, h)\<close> with \<open>w > 0\<close>, a point at eye-space \<open>(x, y, -d)\<close> lands
  \<open>frustumScale * h * x / (2 d)\<close> pixels right of the viewport centre and
  \<open>frustumScale * h * y / (2 d)\<close> pixels above it: the same scale on both axes,
  whatever the aspect ratio, which is what the \<open>h / w\<close> factor of line 76 is for.
\<close>

theorem resize_square_pixels:
  fixes fov :: real and rs :: "(glint \<times> glint) list" and h :: glint and x y :: real
  assumes "0 < n" "n < f" "0 < w" "0 < d"
  defines "p \<equiv> resize_projection w h (foldl (\<lambda>q (w, h). resize_projection w h q) (init_projection_with fov n f) rs)"
      and "c \<equiv> mat_vec (projectionMatrix (resize_projection w h
                (foldl (\<lambda>q (w, h). resize_projection w h q) (init_projection_with fov n f) rs)))
              (eye_point x y (- d))"
  shows "window_x w (ndc_x c) - real_of_int w / 2 = frustumScale p * real_of_int h * x / (2 * d) \<and>
         window_y h (ndc_y c) - real_of_int h / 2 = frustumScale p * real_of_int h * y / (2 * d)"
proof -
  let ?q = "foldl (\<lambda>q (w, h). resize_projection w h q) (init_projection_with fov n f) rs"
  have sh: "perspective_shape ?q"
    using assms(1,2) by (intro perspective_shape_resizes perspective_shape_init)
  have "frustumScale p = frustumScale ?q" by (simp add: p_def)
  then show ?thesis
    using resize_pixel_offsets [OF sh assms(3,4), of h x y] by (simp add: p_def c_def)
qed

theorem resize_square_pixels_witness:
  "window_x 1024 (ndc_x (mat_vec (projectionMatrix (resize_projection 1024 768 init_projection)) (eye_point 1 1 (- 2)))) - 512
   = window_y 768 (ndc_y (mat_vec (projectionMatrix (resize_projection 1024 768 init_projection)) (eye_point 1 1 (- 2)))) - 384"
  using resize_square_pixels [of "1 / 10" 1000 1024 2 768 45 "[]" 1 1]
  by (simp add: init_projection_def)

end
