(* ===== verification/UniformChannel.thy ===== *)
theory UniformChannel
  imports Matrix
begin

text \<open>
  The frame uniform channel: the uniform buffer object that carries the combined
  model-view-projection matrix to the shaders.  The program creates it in
  \<open>init()\<close> (\<open>src/src/main.cpp\<close> lines 59--63) and rewrites it at the start of
  every frame in \<open>enterFrame()\<close> (lines 96--103) by \<^emph>\<open>orphaning\<close>: the buffer is
  mapped with \<open>GL_MAP_INVALIDATE_BUFFER_BIT | GL_MAP_UNSYNCHRONIZED_BIT\<close>, so the
  driver hands out fresh backing storage instead of waiting for the GPU.

  The OpenGL buffer-object semantics the program relies on are modelled from the
  spec (section 4.3) and the OpenGL rules for \<open>glMapBufferRange\<close>: buffer objects
  with a backing storage each, storages drawn from a counter, an indexed uniform
  binding table, and the GPU as a queue of storages that submitted draws will
  still read.  A synchronised mapping of a storage the GPU still reads stalls the
  CPU until the queue drains; that is counted in \<open>stalls\<close>.
  The lemmas show that the program's upload never fails, never stalls, never
  changes what a pending GPU read will see, and leaves the new matrix where the
  next draw reads it; and that the binding slot chosen in \<open>init()\<close> never changes.
\<close>

datatype gl_error = GL_INVALID_OPERATION | GL_INVALID_VALUE

datatype map_bit =
  GL_MAP_READ_BIT | GL_MAP_WRITE_BIT | GL_MAP_INVALIDATE_BUFFER_BIT | GL_MAP_UNSYNCHRONIZED_BIT

record buffer_obj =
  buf_size :: nat
  buf_store :: "nat option"
  buf_mapping :: "nat option"

record gl_buffers =
  buffers :: "gluint \<Rightarrow> buffer_obj option"
  next_name :: gluint
  stores :: "nat \<Rightarrow> mat4 option"
  next_store :: nat
  uniform_binding :: gluint
  indexed_binding :: "nat \<Rightarrow> gluint option"
  gpu_reads :: "nat list"
  stalls :: nat

text \<open>A fresh context: no buffers, names from 1 (0 is the null name).\<close>

definition gl_buffers_init :: gl_buffers where
  "gl_buffers_init =
     \<lparr>buffers = (\<lambda>_. None), next_name = 1, stores = (\<lambda>_. None), next_store = 0,
      uniform_binding = 0, indexed_binding = (\<lambda>_. None), gpu_reads = [], stalls = 0\<rparr>"

text \<open>\<open>sizeof(glm::mat4)\<close>: sixteen 4-byte floats.\<close>

definition mat4_bytes :: nat where
  "mat4_bytes = 64"

subsection \<open>OpenGL buffer operations\<close>

definition bound_buffer :: "gl_buffers \<Rightarrow> buffer_obj option" where
  "bound_buffer s = (if uniform_binding s = 0 then None else buffers s (uniform_binding s))"

definition set_bound_buffer :: "buffer_obj \<Rightarrow> gl_buffers \<Rightarrow> gl_buffers" where
  "set_bound_buffer b s = s\<lparr>buffers := (buffers s)(uniform_binding s \<mapsto> b)\<rparr>"

text \<open>\<open>glGenBuffers(1, &name)\<close>.\<close>

definition gl_gen_buffer :: "gl_buffers \<Rightarrow> gluint \<times> gl_buffers" where
  "gl_gen_buffer s =
     (next_name s,
      s\<lparr>buffers := (buffers s)(next_name s \<mapsto> \<lparr>buf_size = 0, buf_store = None, buf_mapping = None\<rparr>),
        next_name := Suc (next_name s)\<rparr>)"

text \<open>\<open>glBindBuffer(GL_UNIFORM_BUFFER, name)\<close>.\<close>

definition gl_bind_buffer :: "gluint \<Rightarrow> gl_buffers \<Rightarrow> gl_error + gl_buffers" where
  "gl_bind_buffer n s =
     (if n \<noteq> 0 \<and> buffers s n = None then Inl GL_INVALID_OPERATION
      else Inr (s\<lparr>uniform_binding := n\<rparr>))"

text \<open>\<open>glBufferData(GL_UNIFORM_BUFFER, size, NULL, usage)\<close>: a new storage of
  undefined contents.\<close>

definition gl_buffer_data :: "nat \<Rightarrow> gl_buffers \<Rightarrow> gl_error + gl_buffers" where
  "gl_buffer_data sz s =
     (case bound_buffer s of
        None \<Rightarrow> Inl GL_INVALID_OPERATION
      | Some b \<Rightarrow>
          if buf_mapping b \<noteq> None then Inl GL_INVALID_OPERATION
          else Inr (set_bound_buffer (b\<lparr>buf_size := sz, buf_store := Some (next_store s)\<rparr>)
                      (s\<lparr>stores := (stores s)(next_store s := None),
                         next_store := Suc (next_store s)\<rparr>)))"

text \<open>\<open>glBindBufferBase(GL_UNIFORM_BUFFER, index, name)\<close>: the indexed binding and
  the generic binding point both name the buffer.\<close>

definition gl_bind_buffer_base :: "nat \<Rightarrow> gluint \<Rightarrow> gl_buffers \<Rightarrow> gl_error + gl_buffers" where
  "gl_bind_buffer_base i n s =
     (if n \<noteq> 0 \<and> buffers s n = None then Inl GL_INVALID_VALUE
      else Inr (s\<lparr>indexed_binding := (indexed_binding s)(i := (if n = 0 then None else Some n)),
                  uniform_binding := n\<rparr>))"

text \<open>
  \<open>glMapBufferRange(GL_UNIFORM_BUFFER, offset, length, access)\<close>; the result is the
  storage the returned pointer addresses.  With \<open>GL_MAP_INVALIDATE_BUFFER_BIT\<close> the
  driver orphans the old storage and maps a fresh one; without it the current
  storage is mapped, after waiting for the GPU unless \<open>GL_MAP_UNSYNCHRONIZED_BIT\<close>
  is given.
\<close>

definition gl_map_buffer_range ::
  "nat \<Rightarrow> nat \<Rightarrow> map_bit list \<Rightarrow> gl_buffers \<Rightarrow> gl_error + (gl_buffers \<times> nat)" where
  "gl_map_buffer_range off len access s =
     (case bound_buffer s of
        None \<Rightarrow> Inl GL_INVALID_OPERATION
      | Some b \<Rightarrow>
          if len = 0 \<or> buf_size b < off + len then Inl GL_INVALID_VALUE
          else if buf_mapping b \<noteq> None \<or> buf_store b = None then Inl GL_INVALID_OPERATION
          else if GL_MAP_READ_BIT \<notin> set access \<and> GL_MAP_WRITE_BIT \<notin> set access
          then Inl GL_INVALID_OPERATION
          else if GL_MAP_READ_BIT \<in> set access \<and>
                  (GL_MAP_INVALIDATE_BUFFER_BIT \<in> set access \<or> GL_MAP_UNSYNCHRONIZED_BIT \<in> set access)
          then Inl GL_INVALID_OPERATION
          else if GL_MAP_INVALIDATE_BUFFER_BIT \<in> set access
          then (let k = next_store s in
                Inr (set_bound_buffer (b\<lparr>buf_store := Some k, buf_mapping := Some k\<rparr>)
                       (s\<lparr>stores := (stores s)(k := None), next_store := Suc k\<rparr>), k))
          else (let k = the (buf_store b);
                    s1 = (if GL_MAP_UNSYNCHRONIZED_BIT \<notin> set access \<and> k \<in> set (gpu_reads s)
                          then s\<lparr>gpu_reads := [], stalls := Suc (stalls s)\<rparr> else s)
                in Inr (set_bound_buffer (b\<lparr>buf_mapping := Some k\<rparr>) s1, k)))"

text \<open>\<open>*Pointer = value\<close> through a mapping: the whole matrix is stored.\<close>

definition store_through :: "nat \<Rightarrow> mat4 \<Rightarrow> gl_buffers \<Rightarrow> gl_buffers" where
  "store_through k m s = s\<lparr>stores := (stores s)(k := Some m)\<rparr>"

text \<open>\<open>glUnmapBuffer(GL_UNIFORM_BUFFER)\<close>.\<close>

definition gl_unmap_buffer :: "gl_buffers \<Rightarrow> gl_error + gl_buffers" where
  "gl_unmap_buffer s =
     (case bound_buffer s of
        None \<Rightarrow> Inl GL_INVALID_OPERATION
      | Some b \<Rightarrow>
          if buf_mapping b = None then Inl GL_INVALID_OPERATION
          else Inr (set_bound_buffer (b\<lparr>buf_mapping := None\<rparr>) s))"

text \<open>The GPU side: a submitted draw will read the storage behind uniform binding 0;
  the GPU retires submitted reads in order.\<close>

definition gpu_submit_draw :: "gl_buffers \<Rightarrow> gl_buffers" where
  "gpu_submit_draw s =
     (case indexed_binding s 0 of
        None \<Rightarrow> s
      | Some n \<Rightarrow> (case buffers s n of
           None \<Rightarrow> s
         | Some b \<Rightarrow> (case buf_store b of
              None \<Rightarrow> s
            | Some k \<Rightarrow> s\<lparr>gpu_reads := gpu_reads s @ [k]\<rparr>)))"

definition gpu_retire :: "gl_buffers \<Rightarrow> gl_buffers" where
  "gpu_retire s = s\<lparr>gpu_reads := tl (gpu_reads s)\<rparr>"

subsection \<open>The program's use of the channel\<close>

text \<open>
  Lines 59--63 of \<open>init()\<close>: generate the buffer, bind it, give it room for one
  matrix (\<open>GL_STREAM_DRAW\<close> is only a usage hint), and attach it to binding 0.
  The result is the buffer name \<open>modelViewProjectionUBO\<close> and the binding index
  \<open>modelViewProjectionUBOBindingIndex\<close>.
\<close>

definition create_mvp_ubo :: "gl_buffers \<Rightarrow> gl_error + (gl_buffers \<times> gluint \<times> nat)" where
  "create_mvp_ubo s0 =
     (let (ubo, s1) = gl_gen_buffer s0 in
      bindE (gl_bind_buffer ubo s1) (\<lambda>s2.
      bindE (gl_buffer_data mat4_bytes s2) (\<lambda>s3.
      (let idx = 0 in
       bindE (gl_bind_buffer_base idx ubo s3) (\<lambda>s4. Inr (s4, ubo, idx))))))"

text \<open>
  Lines 96--103 of \<open>enterFrame()\<close>.  The C++ code does not test the pointer
  \<open>glMapBufferRange\<close> returns; a failed mapping is a null-pointer write, here the
  error it stems from.
\<close>

definition upload_mvp :: "gluint \<Rightarrow> mat4 \<Rightarrow> gl_buffers \<Rightarrow> gl_error + gl_buffers" where
  "upload_mvp ubo mvp s =
     bindE (gl_bind_buffer ubo s) (\<lambda>s1.
     bindE (gl_map_buffer_range 0 mat4_bytes
              [GL_MAP_WRITE_BIT, GL_MAP_INVALIDATE_BUFFER_BIT, GL_MAP_UNSYNCHRONIZED_BIT] s1)
       (\<lambda>(s2, ptr). gl_unmap_buffer (store_through ptr mvp s2)))"

lemmas gl_buffer_defs = mat4_bytes_def bound_buffer_def set_bound_buffer_def
  gl_gen_buffer_def gl_bind_buffer_def gl_buffer_data_def gl_bind_buffer_base_def
  gl_map_buffer_range_def store_through_def gl_unmap_buffer_def gpu_submit_draw_def gpu_retire_def

subsection \<open>Reachable channel states\<close>

text \<open>
  After \<open>init()\<close> the channel is touched by the program's upload at every frame, by
  the draws the mesh library submits (each reads binding 0), by the GPU retiring
  reads, and by other code binding other buffers to the generic
  \<open>GL_UNIFORM_BUFFER\<close> target in between.
\<close>

inductive chan_reach :: "gluint \<Rightarrow> gl_buffers \<Rightarrow> bool" for ubo where
  created: "create_mvp_ubo gl_buffers_init = Inr (s, ubo, 0) \<Longrightarrow> chan_reach ubo s"
| upload: "chan_reach ubo s \<Longrightarrow> upload_mvp ubo m s = Inr s' \<Longrightarrow> chan_reach ubo s'"
| draw: "chan_reach ubo s \<Longrightarrow> chan_reach ubo (gpu_submit_draw s)"
| retire: "chan_reach ubo s \<Longrightarrow> chan_reach ubo (gpu_retire s)"
| rebind: "chan_reach ubo s \<Longrightarrow> gl_bind_buffer n s = Inr s' \<Longrightarrow> chan_reach ubo s'"

text \<open>
  The channel invariant: the buffer exists, holds one matrix, is not mapped between
  frames, sits at binding 0, and every storage (current or still read by the GPU)
  was handed out before \<open>next_store\<close>.
\<close>

definition chan_inv :: "gluint \<Rightarrow> gl_buffers \<Rightarrow> bool" where
  "chan_inv ubo s \<longleftrightarrow>
     ubo \<noteq> 0 \<and> indexed_binding s 0 = Some ubo \<and>
     (case buffers s ubo of
        None \<Rightarrow> False
      | Some b \<Rightarrow> buf_size b = mat4_bytes \<and> buf_mapping b = None \<and>
                  (case buf_store b of None \<Rightarrow> False | Some k \<Rightarrow> k < next_store s)) \<and>
     list_all (\<lambda>k. k < next_store s) (gpu_reads s)"

lemma chan_invE:
  assumes "chan_inv ubo s"
  obtains b k where "ubo \<noteq> 0" "indexed_binding s 0 = Some ubo" "buffers s ubo = Some b"
    "buf_size b = mat4_bytes" "buf_mapping b = None" "buf_store b = Some k" "k < next_store s"
    "\<forall>j\<in>set (gpu_reads s). j < next_store s"
  using assms by (auto simp: chan_inv_def list_all_iff split: option.splits)

text \<open>The upload of one frame, computed: the buffer gets the fresh storage
  \<open>next_store s\<close>, which holds the matrix; nothing else changes.\<close>

lemma upload_mvp_result:
  assumes "chan_inv ubo s" "buffers s ubo = Some b"
  shows "upload_mvp ubo m s =
    Inr (s\<lparr>uniform_binding := ubo, next_store := Suc (next_store s),
           stores := (stores s)(next_store s \<mapsto> m),
           buffers := (buffers s)(ubo \<mapsto> b\<lparr>buf_store := Some (next_store s), buf_mapping := None\<rparr>)\<rparr>)"
proof -
  from assms(1) obtain b' k where h: "ubo \<noteq> 0" "buffers s ubo = Some b'" "buf_size b' = mat4_bytes"
    "buf_mapping b' = None" "buf_store b' = Some k"
    by (rule chan_invE)
  with assms(2) have "b' = b" by simp
  with h show ?thesis
    by (simp add: upload_mvp_def gl_buffer_defs Let_def fun_upd_twist)
qed

lemma chan_inv_created:
  "create_mvp_ubo gl_buffers_init = Inr (s, ubo, 0) \<Longrightarrow> chan_inv ubo s"
  by (auto simp: create_mvp_ubo_def gl_buffers_init_def gl_buffer_defs chan_inv_def)

lemma chan_inv_upload [inv_preserved]:
  assumes "chan_inv ubo s" "upload_mvp ubo m s = Inr s'"
  shows "chan_inv ubo s'"
proof -
  from assms(1) obtain b k where h: "ubo \<noteq> 0" "indexed_binding s 0 = Some ubo"
    "buffers s ubo = Some b" "buf_size b = mat4_bytes" "buf_mapping b = None"
    "\<forall>j\<in>set (gpu_reads s). j < next_store s" "buf_store b = Some k"
    by (rule chan_invE)
  have q: "list_all (\<lambda>j. j < Suc (next_store s)) (gpu_reads s)"
    using h(6) by (auto simp: list_all_iff)
  have "Inr s' = (upload_mvp ubo m s :: gl_error + gl_buffers)" using assms(2) by simp
  then have e: "s' = s\<lparr>uniform_binding := ubo, next_store := Suc (next_store s),
           stores := (stores s)(next_store s \<mapsto> m),
           buffers := (buffers s)(ubo \<mapsto> b\<lparr>buf_store := Some (next_store s), buf_mapping := None\<rparr>)\<rparr>"
    by (simp add: upload_mvp_result [OF assms(1) h(3)])
  show ?thesis
    using h(1-5) q by (simp add: e chan_inv_def)
qed

lemma chan_inv_draw [inv_preserved]:
  assumes "chan_inv ubo s"
  shows "chan_inv ubo (gpu_submit_draw s)"
proof -
  from assms obtain b k where h: "indexed_binding s 0 = Some ubo"
    "buffers s ubo = Some b" "buf_store b = Some k" "k < next_store s"
    by (rule chan_invE)
  then have "gpu_submit_draw s = s\<lparr>gpu_reads := gpu_reads s @ [k]\<rparr>"
    by (simp add: gpu_submit_draw_def)
  with assms h show ?thesis
    by (simp add: chan_inv_def cong: option.case_cong)
qed

lemma chan_inv_retire [inv_preserved]: "chan_inv ubo s \<Longrightarrow> chan_inv ubo (gpu_retire s)"
  by (simp add: gpu_retire_def chan_inv_def cong: option.case_cong)

lemma chan_inv_rebind [inv_preserved]:
  "chan_inv ubo s \<Longrightarrow> gl_bind_buffer n s = Inr s' \<Longrightarrow> chan_inv ubo s'"
  by (auto simp: gl_bind_buffer_def chan_inv_def split: if_splits cong: option.case_cong)

lemma chan_reach_inv: "chan_reach ubo s \<Longrightarrow> chan_inv ubo s"
  by (induction rule: chan_reach.induct) (auto intro: chan_inv_created inv_preserved)

lemma upload_exists:
  assumes "chan_reach ubo s"
  obtains g where "upload_mvp ubo m s = Inr g"
proof -
  from assms have inv: "chan_inv ubo s" by (rule chan_reach_inv)
  then obtain b k where "buffers s ubo = Some b" "buf_store b = Some k" by (rule chan_invE)
  with inv show ?thesis using that by (simp add: upload_mvp_result)
qed

lemma create_mvp_ubo_index:
  "create_mvp_ubo s = Inr (g, u, i) \<Longrightarrow> i = 0"
  by (auto simp: create_mvp_ubo_def bindE_Inr_iff Let_def split: prod.splits)

lemma chan_reach_created:
  "chan_reach 1 (fst (projr (create_mvp_ubo gl_buffers_init)))"
proof (rule chan_reach.created)
  show "create_mvp_ubo gl_buffers_init = Inr (fst (projr (create_mvp_ubo gl_buffers_init)), 1, 0)"
    by (simp add: create_mvp_ubo_def gl_buffers_init_def gl_buffer_defs)
qed

text \<open>The storages the GPU has yet to read are all older than the one an upload gets.\<close>

lemma pending_reads_unchanged:
  assumes "\<forall>j\<in>set ks. j < n"
  shows "map ((stores s)(n \<mapsto> m)) ks = map (stores s) ks"
  using assms by (induction ks) auto

lemma upload_mvp_draw_reads:
  assumes "chan_reach ubo s" "upload_mvp ubo m s = Inr s'"
  shows "map (stores (gpu_submit_draw s')) (gpu_reads (gpu_submit_draw s')) =
         map (stores s) (gpu_reads s) @ [Some m]"
proof -
  from assms(1) have inv: "chan_inv ubo s" by (rule chan_reach_inv)
  then obtain b k where h: "indexed_binding s 0 = Some ubo" "buffers s ubo = Some b"
    "\<forall>j\<in>set (gpu_reads s). j < next_store s" "buf_store b = Some k"
    by (rule chan_invE)
  have "Inr s' = (upload_mvp ubo m s :: gl_error + gl_buffers)" using assms(2) by simp
  then have e: "s' = s\<lparr>uniform_binding := ubo, next_store := Suc (next_store s),
           stores := (stores s)(next_store s \<mapsto> m),
           buffers := (buffers s)(ubo \<mapsto> b\<lparr>buf_store := Some (next_store s), buf_mapping := None\<rparr>)\<rparr>"
    by (simp add: upload_mvp_result [OF inv h(2)])
  have "next_store s \<notin> set (gpu_reads s)" using h(3) by auto
  then show ?thesis
    using h by (simp add: e gpu_submit_draw_def pending_reads_unchanged)
qed

subsection \<open>Properties of the channel\<close>

text \<open>
  C1: in every reachable state of the channel, the upload of \<open>enterFrame()\<close>
  succeeds (the pointer it writes through is never null), does not stall the CPU,
  and does not change what any draw still queued on the GPU will read: orphaning
  never lets a frame's write alias storage the GPU has not finished reading.
\<close>

theorem upload_orphaning_safe:
  assumes "chan_reach ubo s"
  shows "\<exists>s'. upload_mvp ubo m s = Inr s' \<and> gpu_reads s' = gpu_reads s \<and>
              map (stores s') (gpu_reads s) = map (stores s) (gpu_reads s) \<and> stalls s' = stalls s"
proof -
  from assms have inv: "chan_inv ubo s" by (rule chan_reach_inv)
  then obtain b k where h: "buffers s ubo = Some b" "\<forall>j\<in>set (gpu_reads s). j < next_store s"
    "buf_store b = Some k"
    by (rule chan_invE)
  have "next_store s \<notin> set (gpu_reads s)" using h(2) by auto
  then show ?thesis
    by (simp add: upload_mvp_result [OF inv h(1)] pending_reads_unchanged [OF h(2)])
qed

theorem upload_orphaning_safe_witness:
  "\<exists>s'. upload_mvp 1 mat_zero (gpu_submit_draw (fst (projr (create_mvp_ubo gl_buffers_init)))) = Inr s' \<and>
        gpu_reads s' = gpu_reads (gpu_submit_draw (fst (projr (create_mvp_ubo gl_buffers_init)))) \<and>
        map (stores s') (gpu_reads (gpu_submit_draw (fst (projr (create_mvp_ubo gl_buffers_init))))) =
        map (stores (gpu_submit_draw (fst (projr (create_mvp_ubo gl_buffers_init)))))
            (gpu_reads (gpu_submit_draw (fst (projr (create_mvp_ubo gl_buffers_init))))) \<and>
        stalls s' = stalls (gpu_submit_draw (fst (projr (create_mvp_ubo gl_buffers_init))))"
  by (rule upload_orphaning_safe [OF chan_reach.draw [OF chan_reach_created]])

text \<open>
  C6: after a frame's upload, the next draw reads the matrix of that frame, and every
  draw submitted in an earlier frame still reads what it read before: the queue of
  pending GPU reads sees the old matrices followed by the new one.
\<close>

theorem upload_then_draw_reads_frame_matrix:
  assumes "chan_reach ubo s" "upload_mvp ubo m s = Inr s'"
  shows "map (stores (gpu_submit_draw s')) (gpu_reads (gpu_submit_draw s')) =
         map (stores s) (gpu_reads s) @ [Some m]"
  using assms by (rule upload_mvp_draw_reads)

theorem upload_then_draw_reads_frame_matrix_witness:
  "map (stores (gpu_submit_draw (projr (upload_mvp 1 mat_zero (fst (projr (create_mvp_ubo gl_buffers_init)))))))
       (gpu_reads (gpu_submit_draw (projr (upload_mvp 1 mat_zero (fst (projr (create_mvp_ubo gl_buffers_init)))))))
   = [Some mat_zero]"
proof -
  obtain s' where u: "upload_mvp 1 mat_zero (fst (projr (create_mvp_ubo gl_buffers_init))) = Inr s'"
    using chan_reach_created by (rule upload_exists)
  have "gpu_reads (fst (projr (create_mvp_ubo gl_buffers_init))) = []"
    by (simp add: create_mvp_ubo_def gl_buffers_init_def gl_buffer_defs)
  then show ?thesis
    using upload_then_draw_reads_frame_matrix [OF chan_reach_created u] u by simp
qed

text \<open>
  C14: the binding slot fixed in \<open>init()\<close> never changes: in every reachable state
  uniform binding 0 names \<open>modelViewProjectionUBO\<close>, whose buffer holds exactly one
  \<open>glm::mat4\<close> and is unmapped between frames.
\<close>

theorem ubo_binding_stable:
  assumes "chan_reach ubo s"
  shows "indexed_binding s 0 = Some ubo \<and>
         (\<exists>b. buffers s ubo = Some b \<and> buf_size b = mat4_bytes \<and> buf_mapping b = None)"
proof -
  from assms have "chan_inv ubo s" by (rule chan_reach_inv)
  then show ?thesis by (rule chan_invE) auto
qed

theorem ubo_binding_stable_witness:
  "indexed_binding (gpu_retire (gpu_submit_draw (fst (projr (create_mvp_ubo gl_buffers_init))))) 0 = Some 1"
  using ubo_binding_stable [OF chan_reach.retire [OF chan_reach.draw [OF chan_reach_created]]] by simp

end
