(* ===== verification/Compositor.thy ===== *)
theory Compositor
  imports Prelude
begin

text \<open>
  The transparency compositor, the \<open>Transparency\<close> object of \<open>main.cpp\<close>
  (\<open>transparency.initTransparency()\<close>, \<open>reshapeTransparency(w, h)\<close>,
  \<open>prepareTransparency(w, h)\<close>, \<open>finalizeTransparency()\<close>).  Its source
  (\<open>Transparency.h\<close>) is not part of the repository, so it is modelled from the
  spec (sections 4.4 and 7): a phase machine \<open>Idle \<rightarrow> Accepting \<rightarrow> Idle\<close>
  (the spec's transient \<open>Preparing\<close> and \<open>Finalizing\<close> states lie inside one
  call each), render targets sized to the viewport and allocated from a bounded
  texture budget with roll-back on failure, and weighted-blended order-independent
  transparency on one representative pixel (pixels are independent; one colour
  channel stands for each of the three).

  Opaque fragments are depth-tested with \<open>GL_LEQUAL\<close> and write depth; translucent
  fragments are tested against the opaque depth without writing it and add
  \<open>c \<cdot> a \<cdot> w\<close> to the accumulated colour, \<open>a \<cdot> w\<close> to the accumulated weight,
  and multiply the revealage by \<open>1 - a\<close>.  \<open>finalize\<close> normalises and blends the
  result over the opaque colour.  The lemmas show that the result depends only on
  the multiset of translucent fragments (the abstract specification
  \<open>oit_spec\<close>), that every operation keeps the resource invariant, and that
  failed \<open>reshape\<close>s change nothing.
\<close>

datatype phase = Idle | Accepting

datatype comp_error = BadDimensions | OutOfMemory | WrongPhase | NoTargets

datatype fragment =
    Opaque real real
  | Translucent real real real real

text \<open>\<open>Opaque depth colour\<close>, \<open>Translucent depth colour alpha weight\<close>.\<close>

record pixel =
  opaque_color :: real
  opaque_depth :: real
  accum_color :: real
  accum_weight :: real
  revealage :: real

record targets =
  tgt_width :: int
  tgt_height :: int
  tgt_textures :: "nat list"

record compositor =
  comp_phase :: phase
  comp_targets :: "targets option"
  live_textures :: "nat list"
  next_texture :: nat
  texture_budget :: nat
  comp_pixel :: pixel
  comp_output :: "real option"

text \<open>Opaque colour, opaque depth, accumulation and revealage targets.\<close>

definition targets_per_viewport :: nat where
  "targets_per_viewport = 4"

text \<open>\<open>initTransparency()\<close>: no targets yet, a texture budget from the driver.\<close>

definition init_compositor :: "nat \<Rightarrow> compositor" where
  "init_compositor budget =
     \<lparr>comp_phase = Idle, comp_targets = None, live_textures = [], next_texture = 1,
      texture_budget = budget,
      comp_pixel = \<lparr>opaque_color = 0, opaque_depth = 1, accum_color = 0, accum_weight = 0,
                    revealage = 1\<rparr>,
      comp_output = None\<rparr>"

text \<open>
  \<open>reshapeTransparency(w, h)\<close>: rejected for non-positive sizes or outside
  \<open>Idle\<close>; otherwise the old targets are released and a fresh set allocated.
  If the budget (after the release) is too small the call fails and the old
  targets stay as they were: all or nothing.
\<close>

definition reshape :: "int \<Rightarrow> int \<Rightarrow> compositor \<Rightarrow> comp_error + compositor" where
  "reshape w h c =
     (if w \<le> 0 \<or> h \<le> 0 then Inl BadDimensions
      else if comp_phase c \<noteq> Idle then Inl WrongPhase
      else let budget = texture_budget c + length (live_textures c);
               names = [next_texture c..<next_texture c + targets_per_viewport]
           in if budget < targets_per_viewport then Inl OutOfMemory
              else Inr (c\<lparr>comp_targets := Some \<lparr>tgt_width = w, tgt_height = h, tgt_textures = names\<rparr>,
                          live_textures := names,
                          next_texture := next_texture c + targets_per_viewport,
                          texture_budget := budget - targets_per_viewport\<rparr>))"

text \<open>\<open>prepareTransparency(w, h)\<close>: bind and clear the targets (colour 0, depth
  1.0, empty accumulation, full revealage) and accept draws.\<close>

definition clear_pixel :: pixel where
  "clear_pixel = \<lparr>opaque_color = 0, opaque_depth = 1, accum_color = 0, accum_weight = 0,
                  revealage = 1\<rparr>"

definition prepare :: "int \<Rightarrow> int \<Rightarrow> compositor \<Rightarrow> comp_error + compositor" where
  "prepare w h c =
     (if comp_phase c \<noteq> Idle then Inl WrongPhase
      else case comp_targets c of
             None \<Rightarrow> Inl NoTargets
           | Some t \<Rightarrow> Inr (c\<lparr>comp_phase := Accepting, comp_pixel := clear_pixel\<rparr>))"

text \<open>One fragment arriving at the pixel while draws are accepted.\<close>

fun blend_fragment :: "pixel \<Rightarrow> fragment \<Rightarrow> pixel" where
  "blend_fragment p (Opaque d col) =
     (if d \<le> opaque_depth p then p\<lparr>opaque_color := col, opaque_depth := d\<rparr> else p)"
| "blend_fragment p (Translucent d col a w) =
     (if d \<le> opaque_depth p
      then p\<lparr>accum_color := accum_color p + col * a * w, accum_weight := accum_weight p + a * w,
             revealage := revealage p * (1 - a)\<rparr>
      else p)"

definition draw :: "fragment list \<Rightarrow> compositor \<Rightarrow> comp_error + compositor" where
  "draw fs c =
     (if comp_phase c \<noteq> Accepting then Inl WrongPhase
      else Inr (c\<lparr>comp_pixel := foldl blend_fragment (comp_pixel c) fs\<rparr>))"

text \<open>\<open>finalizeTransparency()\<close>: the weighted average of the translucent colours,
  blended over the opaque colour by the revealage, written to the default
  framebuffer.\<close>

definition resolve :: "pixel \<Rightarrow> real" where
  "resolve p =
     (let avg = (if accum_weight p = 0 then 0 else accum_color p / accum_weight p)
      in opaque_color p * revealage p + avg * (1 - revealage p))"

definition finalize :: "compositor \<Rightarrow> comp_error + compositor" where
  "finalize c =
     (if comp_phase c \<noteq> Accepting then Inl WrongPhase
      else Inr (c\<lparr>comp_phase := Idle, comp_output := Some (resolve (comp_pixel c))\<rparr>))"

subsection \<open>The abstract specification of translucent compositing\<close>

text \<open>
  What a translucent fragment contributes to a pixel whose opaque depth is \<open>od\<close>:
  nothing if the depth test rejects it.
\<close>

fun is_translucent :: "fragment \<Rightarrow> bool" where
  "is_translucent (Opaque _ _) = False"
| "is_translucent (Translucent _ _ _ _) = True"

fun frag_color :: "real \<Rightarrow> fragment \<Rightarrow> real" where
  "frag_color od (Translucent d col a w) = (if d \<le> od then col * a * w else 0)"
| "frag_color od (Opaque _ _) = 0"

fun frag_weight :: "real \<Rightarrow> fragment \<Rightarrow> real" where
  "frag_weight od (Translucent d col a w) = (if d \<le> od then a * w else 0)"
| "frag_weight od (Opaque _ _) = 0"

fun frag_reveal :: "real \<Rightarrow> fragment \<Rightarrow> real" where
  "frag_reveal od (Translucent d col a w) = (if d \<le> od then 1 - a else 1)"
| "frag_reveal od (Opaque _ _) = 1"

text \<open>
  The specification: the composite of an opaque colour and depth with a
  \<^emph>\<open>multiset\<close> of translucent fragments, so that no order appears in it.
\<close>

definition oit_spec :: "real \<Rightarrow> real \<Rightarrow> fragment multiset \<Rightarrow> real" where
  "oit_spec oc od F =
     (let cs = sum_mset (image_mset (frag_color od) F);
          ws = sum_mset (image_mset (frag_weight od) F);
          r = prod_mset (image_mset (frag_reveal od) F);
          avg = (if ws = 0 then 0 else cs / ws)
      in oc * r + avg * (1 - r))"

lemma foldl_blend_translucent:
  "list_all is_translucent ts \<Longrightarrow>
   foldl blend_fragment p ts =
     p\<lparr>accum_color := accum_color p + sum_list (map (frag_color (opaque_depth p)) ts),
       accum_weight := accum_weight p + sum_list (map (frag_weight (opaque_depth p)) ts),
       revealage := revealage p * prod_list (map (frag_reveal (opaque_depth p)) ts)\<rparr>"
proof (induction ts arbitrary: p)
  case Nil
  then show ?case by simp
next
  case (Cons t ts)
  then obtain d col a w where t: "t = Translucent d col a w" by (cases t) auto
  from Cons show ?case by (simp add: t algebra_simps)
qed

text \<open>The refinement: resolving the pixel after the translucent draws computes the
  specification of their multiset.\<close>

lemma resolve_refines_oit_spec:
  assumes "list_all is_translucent ts"
    and "accum_color p = 0" "accum_weight p = 0" "revealage p = 1"
  shows "resolve (foldl blend_fragment p ts) = oit_spec (opaque_color p) (opaque_depth p) (mset ts)"
  using assms
  by (simp add: foldl_blend_translucent resolve_def oit_spec_def Let_def
      sum_mset_sum_list prod_mset_prod_list flip: mset_map)

lemma foldl_blend_perm:
  assumes "list_all is_translucent ts" "mset ts = mset ts'"
  shows "foldl blend_fragment p ts = foldl blend_fragment p ts'"
proof -
  have "set ts' = set ts" using assms(2) by (metis set_mset_mset)
  then have "list_all is_translucent ts'" using assms(1) by (simp add: list_all_iff)
  then show ?thesis
    using assms by (simp add: foldl_blend_translucent sum_list_map_mset_eq [OF assms(2)]
        prod_list_map_mset_eq [OF assms(2)])
qed

lemma foldl_blend_opaque_accum:
  "list_all (\<lambda>f. \<not> is_translucent f) os \<Longrightarrow>
   accum_color (foldl blend_fragment p os) = accum_color p \<and>
   accum_weight (foldl blend_fragment p os) = accum_weight p \<and>
   revealage (foldl blend_fragment p os) = revealage p"
proof (induction os arbitrary: p)
  case Nil
  then show ?case by simp
next
  case (Cons f os)
  then obtain d col where "f = Opaque d col" by (cases f) auto
  with Cons show ?case by simp
qed

subsection \<open>Resources\<close>

text \<open>
  The resource invariant for a texture supply of \<open>B\<close> textures: the live textures
  are exactly the current targets (none before the first \<open>reshape\<close>), distinct,
  four of them, sized positively, and together with the remaining budget they
  account for all \<open>B\<close>, so no \<open>reshape\<close> leaks one.
\<close>

definition comp_inv :: "nat \<Rightarrow> compositor \<Rightarrow> bool" where
  "comp_inv B c \<longleftrightarrow>
     (case comp_targets c of
        None \<Rightarrow> live_textures c = []
      | Some t \<Rightarrow> 0 < tgt_width t \<and> 0 < tgt_height t \<and> tgt_textures t = live_textures c \<and>
                  length (live_textures c) = targets_per_viewport) \<and>
     distinct (live_textures c) \<and> list_all (\<lambda>x. x < next_texture c) (live_textures c) \<and>
     texture_budget c + length (live_textures c) = B"

lemma comp_inv_upd [simp]:
  "comp_inv B (c\<lparr>comp_phase := x\<rparr>) = comp_inv B c"
  "comp_inv B (c\<lparr>comp_pixel := y\<rparr>) = comp_inv B c"
  "comp_inv B (c\<lparr>comp_output := z\<rparr>) = comp_inv B c"
  by (simp_all add: comp_inv_def cong: option.case_cong)

lemma comp_inv_init: "comp_inv B (init_compositor B)"
  by (simp add: comp_inv_def init_compositor_def)

lemma init_compositor_idle [simp]: "comp_phase (init_compositor B) = Idle"
  by (simp add: init_compositor_def)

lemma reshape_Inr:
  "reshape w h c = Inr c' \<longleftrightarrow>
     0 < w \<and> 0 < h \<and> comp_phase c = Idle \<and>
     targets_per_viewport \<le> texture_budget c + length (live_textures c) \<and>
     c' = c\<lparr>comp_targets := Some \<lparr>tgt_width = w, tgt_height = h,
              tgt_textures = [next_texture c..<next_texture c + targets_per_viewport]\<rparr>,
            live_textures := [next_texture c..<next_texture c + targets_per_viewport],
            next_texture := next_texture c + targets_per_viewport,
            texture_budget := texture_budget c + length (live_textures c) - targets_per_viewport\<rparr>"
  by (auto simp: reshape_def Let_def)

lemma comp_inv_reshape [inv_preserved]:
  "comp_inv B c \<Longrightarrow> reshape w h c = Inr c' \<Longrightarrow> comp_inv B c'"
  by (auto simp: reshape_Inr comp_inv_def list_all_iff)

lemma comp_inv_prepare [inv_preserved]:
  "comp_inv B c \<Longrightarrow> prepare w h c = Inr c' \<Longrightarrow> comp_inv B c'"
  by (auto simp: prepare_def comp_inv_def split: if_splits option.splits)

lemma comp_inv_draw [inv_preserved]:
  "comp_inv B c \<Longrightarrow> draw fs c = Inr c' \<Longrightarrow> comp_inv B c'"
  by (auto simp: draw_def comp_inv_def split: if_splits option.splits)

lemma comp_inv_finalize [inv_preserved]:
  "comp_inv B c \<Longrightarrow> finalize c = Inr c' \<Longrightarrow> comp_inv B c'"
  by (auto simp: finalize_def comp_inv_def split: if_splits option.splits)

text \<open>A rejected \<open>reshape\<close> is an error value and mutates nothing (the caller
  keeps its state); the cases are exactly the spec's preconditions and the
  allocation failure.\<close>

lemma reshape_Inl:
  "reshape w h c = Inl e \<longleftrightarrow>
     (e = BadDimensions \<and> (w \<le> 0 \<or> h \<le> 0)) \<or>
     (e = WrongPhase \<and> 0 < w \<and> 0 < h \<and> comp_phase c \<noteq> Idle) \<or>
     (e = OutOfMemory \<and> 0 < w \<and> 0 < h \<and> comp_phase c = Idle \<and>
        texture_budget c + length (live_textures c) < targets_per_viewport)"
  by (auto simp: reshape_def Let_def)

end
