(* ===== verification/Camera.thy ===== *)
theory Camera
  imports Matrix
begin

text \<open>
  The camera controller, the \<open>Camera1stPerson camera\<close> global of \<open>main.cpp\<close>
  (\<open>camera.activate()\<close>, \<open>camera.zoom(d)\<close>, \<open>camera.pan(dx, dy)\<close>,
  \<open>camera.rotate(dYaw, dPitch)\<close>).  Its header \<open>Cameras/Camera1stPerson.h\<close> is not
  part of the repository, so the camera is modelled from the spec (section 4.1): a
  focus point with a spherical offset (distance, yaw, pitch).  \<open>zoom\<close> adds its
  argument to the distance and clamps it to \<open>min_distance\<close> (the spec's test
  "1000 calls of zoom(-1) from distance 5" fixes the sign: a negative argument
  moves closer), \<open>rotate\<close> clamps the pitch to \<open>(-89, 89)\<close> degrees, and \<open>pan\<close>
  moves the focus in the camera's right/up plane by an amount scaled by the
  distance.  The view matrix is the look-at matrix of the eye position towards the
  focus.  The lemmas show the two clamping invariants, that the camera frame is
  orthonormal, and that the view matrix takes the eye to the origin and the focus to
  the point at the camera distance on the \<open>-z\<close> axis.
\<close>

record camera =
  focus_x :: real
  focus_y :: real
  focus_z :: real
  cam_distance :: real
  cam_yaw :: real
  cam_pitch :: real
  cam_active :: bool

definition min_distance :: real where
  "min_distance = 1 / 10"

definition pitch_limit :: real where
  "pitch_limit = 89 * (pi / 180)"

definition default_camera :: camera where
  "default_camera =
     \<lparr>focus_x = 0, focus_y = 0, focus_z = 0, cam_distance = 5, cam_yaw = 0, cam_pitch = 0,
      cam_active = False\<rparr>"

definition activate :: "camera \<Rightarrow> camera" where
  "activate c = c\<lparr>cam_active := True\<rparr>"

definition zoom :: "real \<Rightarrow> camera \<Rightarrow> camera" where
  "zoom delta c = c\<lparr>cam_distance := max min_distance (cam_distance c + delta)\<rparr>"

definition rotate :: "real \<Rightarrow> real \<Rightarrow> camera \<Rightarrow> camera" where
  "rotate dYaw dPitch c =
     c\<lparr>cam_yaw := cam_yaw c + dYaw,
       cam_pitch := clamp (- pitch_limit) pitch_limit (cam_pitch c + dPitch)\<rparr>"

text \<open>The unit vectors of the camera frame: towards the eye, right, and up.\<close>

definition eye_dir :: "camera \<Rightarrow> real \<times> real \<times> real" where
  "eye_dir c = (cos (cam_pitch c) * sin (cam_yaw c), sin (cam_pitch c), cos (cam_pitch c) * cos (cam_yaw c))"

definition right_dir :: "camera \<Rightarrow> real \<times> real \<times> real" where
  "right_dir c = (cos (cam_yaw c), 0, - sin (cam_yaw c))"

definition up_dir :: "camera \<Rightarrow> real \<times> real \<times> real" where
  "up_dir c = (- sin (cam_pitch c) * sin (cam_yaw c), cos (cam_pitch c), - sin (cam_pitch c) * cos (cam_yaw c))"

definition pan :: "real \<Rightarrow> real \<Rightarrow> camera \<Rightarrow> camera" where
  "pan dx dy c =
     (let (rx, ry, rz) = right_dir c; (ux, uy, uz) = up_dir c; k = cam_distance c
      in c\<lparr>focus_x := focus_x c + k * (dx * rx + dy * ux),
           focus_y := focus_y c + k * (dx * ry + dy * uy),
           focus_z := focus_z c + k * (dx * rz + dy * uz)\<rparr>)"

text \<open>The view matrix (column-major): rows are right, up and eye direction, and the
  translation moves the eye to the origin.\<close>

definition view_matrix :: "camera \<Rightarrow> mat4" where
  "view_matrix c =
     (let (rx, ry, rz) = right_dir c; (ux, uy, uz) = up_dir c; (ex, ey, ez) = eye_dir c;
          px = focus_x c + cam_distance c * ex; py = focus_y c + cam_distance c * ey;
          pz = focus_z c + cam_distance c * ez
      in \<lparr>col0 = \<lparr>vx = rx, vy = ux, vz = ex, vw = 0\<rparr>,
          col1 = \<lparr>vx = ry, vy = uy, vz = ey, vw = 0\<rparr>,
          col2 = \<lparr>vx = rz, vy = uz, vz = ez, vw = 0\<rparr>,
          col3 = \<lparr>vx = - (rx * px + ry * py + rz * pz), vy = - (ux * px + uy * py + uz * pz),
                  vz = - (ex * px + ey * py + ez * pz), vw = 1\<rparr>\<rparr>)"

text \<open>The eye's position (the focus moved back by the distance along the eye
  direction) and the focus point, as homogeneous points.\<close>

definition eye_position :: "camera \<Rightarrow> vec4" where
  "eye_position c =
     (case eye_dir c of (ex, ey, ez) \<Rightarrow>
        \<lparr>vx = focus_x c + cam_distance c * ex, vy = focus_y c + cam_distance c * ey,
         vz = focus_z c + cam_distance c * ez, vw = 1\<rparr>)"

definition focus_point :: "camera \<Rightarrow> vec4" where
  "focus_point c = \<lparr>vx = focus_x c, vy = focus_y c, vz = focus_z c, vw = 1\<rparr>"

subsection \<open>Clamping invariants\<close>

definition cam_inv :: "camera \<Rightarrow> bool" where
  "cam_inv c \<longleftrightarrow> min_distance \<le> cam_distance c \<and>
                  - pitch_limit \<le> cam_pitch c \<and> cam_pitch c \<le> pitch_limit"

lemma pitch_limit_pos: "0 < pitch_limit"
  by (simp add: pitch_limit_def)

lemma cam_inv_default: "cam_inv default_camera"
  by (simp add: cam_inv_def default_camera_def min_distance_def pitch_limit_def)

lemma cam_inv_activate [inv_preserved]: "cam_inv c \<Longrightarrow> cam_inv (activate c)"
  by (simp add: cam_inv_def activate_def)

lemma cam_inv_zoom [inv_preserved]: "cam_inv c \<Longrightarrow> cam_inv (zoom d c)"
  by (simp add: cam_inv_def zoom_def)

lemma cam_inv_rotate [inv_preserved]: "cam_inv c \<Longrightarrow> cam_inv (rotate a b c)"
  using pitch_limit_pos by (simp add: cam_inv_def rotate_def)

lemma pan_keeps [simp]:
  "cam_distance (pan a b c) = cam_distance c" "cam_pitch (pan a b c) = cam_pitch c"
  "cam_yaw (pan a b c) = cam_yaw c" "cam_active (pan a b c) = cam_active c"
  by (simp_all add: pan_def Let_def split: prod.splits)

lemma cam_inv_pan [inv_preserved]: "cam_inv c \<Longrightarrow> cam_inv (pan a b c)"
  by (simp add: cam_inv_def)

lemma zoom_distance: "cam_distance (zoom d c) = max min_distance (cam_distance c + d)"
  by (simp add: zoom_def)

text \<open>Two zooms with a net positive first step compose to one.\<close>

lemma zoom_zoom:
  "min_distance \<le> cam_distance c + a \<Longrightarrow> zoom b (zoom a c) = zoom (a + b) c"
  by (simp add: zoom_def add.assoc)

subsection \<open>The view matrix is a rigid look-at transform\<close>

text \<open>Its rows are the camera frame, which is orthonormal for every yaw and pitch.\<close>

lemma view_rows:
  "mrow3 (view_matrix c) 0 = right_dir c" "mrow3 (view_matrix c) (Suc 0) = up_dir c"
  "mrow3 (view_matrix c) 2 = eye_dir c"
  by (simp_all add: mrow3_def view_matrix_def right_dir_def up_dir_def eye_dir_def Let_def)

lemma camera_frame_orthonormal:
  "dot3 (right_dir c) (right_dir c) = 1" "dot3 (up_dir c) (up_dir c) = 1"
  "dot3 (eye_dir c) (eye_dir c) = 1" "dot3 (right_dir c) (up_dir c) = 0"
  "dot3 (right_dir c) (eye_dir c) = 0" "dot3 (up_dir c) (eye_dir c) = 0"
  "dot3 (up_dir c) (right_dir c) = 0" "dot3 (eye_dir c) (right_dir c) = 0"
  "dot3 (eye_dir c) (up_dir c) = 0"
proof -
  have y: "(sin (cam_yaw c))\<^sup>2 + (cos (cam_yaw c))\<^sup>2 = 1" and p: "(sin (cam_pitch c))\<^sup>2 + (cos (cam_pitch c))\<^sup>2 = 1"
    by simp_all
  show "dot3 (right_dir c) (right_dir c) = 1" using y
    by (simp add: dot3_def right_dir_def power2_eq_square add.commute)
  show "dot3 (up_dir c) (up_dir c) = 1" "dot3 (eye_dir c) (eye_dir c) = 1"
    using y p by (simp_all add: dot3_def up_dir_def eye_dir_def power2_eq_square) algebra+
  show "dot3 (right_dir c) (up_dir c) = 0" "dot3 (right_dir c) (eye_dir c) = 0"
     "dot3 (up_dir c) (right_dir c) = 0" "dot3 (eye_dir c) (right_dir c) = 0"
    by (simp_all add: dot3_def up_dir_def eye_dir_def right_dir_def algebra_simps)
  show "dot3 (up_dir c) (eye_dir c) = 0" "dot3 (eye_dir c) (up_dir c) = 0"
    using y by (simp_all add: dot3_def up_dir_def eye_dir_def power2_eq_square) algebra+
qed

lemma view_matrix_bottom_row:
  "vw (col0 (view_matrix c)) = 0" "vw (col1 (view_matrix c)) = 0"
  "vw (col2 (view_matrix c)) = 0" "vw (col3 (view_matrix c)) = 1"
  by (simp_all add: view_matrix_def Let_def split: prod.splits)

lemma view_matrix_eye:
  "mat_vec (view_matrix c) (eye_position c) = \<lparr>vx = 0, vy = 0, vz = 0, vw = 1\<rparr>"
  by (simp add: view_matrix_def eye_position_def mat_ops Let_def split: prod.splits)

lemma view_matrix_focus:
  "mat_vec (view_matrix c) (focus_point c) = \<lparr>vx = 0, vy = 0, vz = - cam_distance c, vw = 1\<rparr>"
proof -
  obtain rx ry rz where r: "right_dir c = (rx, ry, rz)" by (cases "right_dir c") auto
  obtain ux uy uz where u: "up_dir c = (ux, uy, uz)" by (cases "up_dir c") auto
  obtain ex ey ez where e: "eye_dir c = (ex, ey, ez)" by (cases "eye_dir c") auto
  have o: "rx * ex + ry * ey + rz * ez = 0" "ux * ex + uy * ey + uz * ez = 0" "ex * ex + ey * ey + ez * ez = 1"
    using camera_frame_orthonormal(5,6,3) [of c] by (simp_all add: r u e dot3_def)
  have "mat_vec (view_matrix c) (focus_point c) =
     \<lparr>vx = - cam_distance c * (rx * ex + ry * ey + rz * ez), vy = - cam_distance c * (ux * ex + uy * ey + uz * ez),
      vz = - cam_distance c * (ex * ex + ey * ey + ez * ez), vw = 1\<rparr>"
    by (simp add: view_matrix_def focus_point_def mat_ops r u e Let_def algebra_simps)
  then show ?thesis by (simp add: o)
qed

text \<open>The rotation rows are orthonormal, the bottom row is \<open>(0, 0, 0, 1)\<close>, and the
  eye goes to the origin.\<close>

lemma view_matrix_orthonormal:
  assumes "i < 3" "j < 3"
  shows "dot3 (mrow3 (view_matrix c) i) (mrow3 (view_matrix c) j) = (if i = j then 1 else 0) \<and>
         vw (col0 (view_matrix c)) = 0 \<and> vw (col1 (view_matrix c)) = 0 \<and>
         vw (col2 (view_matrix c)) = 0 \<and> vw (col3 (view_matrix c)) = 1 \<and>
         mat_vec (view_matrix c) (eye_position c) = \<lparr>vx = 0, vy = 0, vz = 0, vw = 1\<rparr>"
proof -
  from assms have "i = 0 \<or> i = 1 \<or> i = 2" "j = 0 \<or> j = 1 \<or> j = 2" by auto
  then have "dot3 (mrow3 (view_matrix c) i) (mrow3 (view_matrix c) j) = (if i = j then 1 else 0)"
    by (elim disjE) (simp_all add: view_rows camera_frame_orthonormal)
  then show ?thesis
    by (simp add: view_matrix_eye view_matrix_bottom_row)
qed

end
