(* ===== verification/Frame.thy ===== *)
theory Frame
  imports Projection UniformChannel Compositor Camera
begin

text \<open>
  The render loop's state and its three entry points in \<open>src/src/main.cpp\<close>:
  \<open>init()\<close> (lines 31--72), \<open>resize(w, h)\<close> (lines 74--85) and
  \<open>enterFrame()\<close> (lines 87--111).  The record \<open>app\<close> holds the globals of the
  anonymous namespace (lines 14--26: projection state, \<open>width\<close>, \<open>height\<close>, the
  UBO name and binding index, the camera, the compositor), the
  \<open>Globals::modelViewProjectionMatrix\<close>, the fixed-function OpenGL state the code
  sets, the buffer objects of the channel, one representative pixel of the default
  framebuffer, and the log of calls into the external shader state and mesh
  library.  The view matrix \<open>Globals::viewMatrix\<close> is the active camera's
  (\<open>camera.activate()\<close> makes it the transform source); the fragments the mesh
  library produces in a frame are a parameter of \<open>enterFrame\<close>.
  The compositor's entry points return \<open>void\<close> in C++, so a call the compositor
  rejects (out of phase, or without targets) leaves it unchanged and the frame
  carries on (\<open>void_call\<close>).  The one failure that ends a frame is a failed
  \<open>glMapBufferRange\<close> in the upload: line 101 then writes through a null pointer,
  undefined behaviour that the model ends the run with.  The lemmas show that it
  never happens in a reachable state.
\<close>

datatype cull_mode = GL_BACK
datatype winding = GL_CCW
datatype depth_fn = GL_LEQUAL

record gl_fixed =
  cull_enabled :: bool
  cull_face :: "cull_mode option"
  front_face :: "winding option"
  depth_test :: bool
  depth_mask :: bool
  depth_func :: "depth_fn option"
  depth_range :: "real \<times> real"
  clear_color :: "real \<times> real \<times> real \<times> real"
  clear_depth :: real
  clear_stencil :: int
  viewport :: "int \<times> int \<times> int \<times> int"

datatype ext_call = ShaderInit | MeshInit | ShaderPrepare | MeshRender

text \<open>The only failure of a frame the program can observe: \<open>glMapBufferRange\<close>
  failing, after which line 101 writes through a null pointer.\<close>

datatype frame_error = GLErr gl_error

record app =
  proj :: proj_state
  width :: glint
  height :: glint
  glfix :: gl_fixed
  gl :: gl_buffers
  mvp_ubo :: gluint
  mvp_ubo_index :: nat
  camera :: camera
  mvp :: mat4
  transp :: compositor
  framebuffer :: real
  calls :: "ext_call list"

text \<open>The context's fixed-function state before \<open>init()\<close> (OpenGL's defaults).\<close>

definition gl_fixed_default :: gl_fixed where
  "gl_fixed_default =
     \<lparr>cull_enabled = False, cull_face = None, front_face = None, depth_test = False,
      depth_mask = True, depth_func = None, depth_range = (0, 1), clear_color = (0, 0, 0, 0),
      clear_depth = 1, clear_stencil = 0, viewport = (0, 0, 0, 0)\<rparr>"

text \<open>Lines 49--56 of \<open>init()\<close>.\<close>

definition init_fixed_state :: "gl_fixed \<Rightarrow> gl_fixed" where
  "init_fixed_state f =
     f\<lparr>cull_enabled := True, cull_face := Some GL_BACK, front_face := Some GL_CCW,
       depth_test := True, depth_mask := True, depth_func := Some GL_LEQUAL,
       depth_range := (0, 1)\<rparr>"

text \<open>
  \<open>init()\<close>: projection (lines 36--47), fixed-function state (49--56), the UBO
  (59--63), then the collaborators in the code's order (67--70).  The globals
  \<open>width\<close> and \<open>height\<close> have static storage and start at 0;
  \<open>budget\<close> is the number of render-target textures the driver can allocate.
\<close>

definition init_app :: "nat \<Rightarrow> frame_error + app" where
  "init_app budget =
     bindE (map_sum GLErr id (create_mvp_ubo gl_buffers_init)) (\<lambda>(g, ubo, idx).
       Inr \<lparr>proj = init_projection, width = 0, height = 0,
            glfix = init_fixed_state gl_fixed_default, gl = g, mvp_ubo = ubo, mvp_ubo_index = idx,
            camera = activate default_camera, mvp = mat_zero,
            transp = init_compositor budget, framebuffer = 0,
            calls = [ShaderInit, MeshInit]\<rparr>)"

text \<open>
  \<open>resize(w, h)\<close>.  \<open>reshapeTransparency\<close> returns \<open>void\<close>: when the compositor
  rejects the sizes (or cannot allocate), the code carries on with the targets it
  had, having already stored \<open>w\<close> and \<open>h\<close> and rescaled the projection.
\<close>

definition resize_app :: "glint \<Rightarrow> glint \<Rightarrow> app \<Rightarrow> app" where
  "resize_app w h a =
     (let a1 = a\<lparr>proj := resize_projection w h (proj a), width := w, height := h,
                 glfix := (glfix a)\<lparr>viewport := (0, 0, w, h)\<rparr>\<rparr>
      in case reshape (width a1) (height a1) (transp a1) of
           Inl e \<Rightarrow> a1
         | Inr c \<Rightarrow> a1\<lparr>transp := c\<rparr>)"

text \<open>Line 95: \<open>Globals::modelViewProjectionMatrix = projectionMatrix * Globals::viewMatrix\<close>.\<close>

definition frame_mvp :: "app \<Rightarrow> mat4" where
  "frame_mvp a = mat_mul (projectionMatrix (proj a)) (view_matrix (camera a))"

text \<open>
  The compositor's methods return \<open>void\<close>: \<open>enterFrame()\<close> cannot see whether
  one was rejected and carries on with the next line.  A rejected call of the
  compositor model changes nothing (all or nothing, spec section 7), so the
  caller continues with the compositor as it was.
\<close>

definition void_call :: "('c \<Rightarrow> comp_error + 'c) \<Rightarrow> 'c \<Rightarrow> 'c" where
  "void_call f c = (case f c of Inl e \<Rightarrow> c | Inr c' \<Rightarrow> c')"

text \<open>
  \<open>enterFrame()\<close>: clear (lines 89--92), combine the matrices (95), upload by
  orphaning (97--103), \<open>shaderState.prepareForRender()\<close> (106), then the
  compositor around \<open>meshLibrary.render()\<close> (107--109).  The mesh library's draw
  reads the UBO through binding 0 on the GPU and sends its fragments through the
  targets the compositor has bound.  The frame ends in an error only when the
  mapping fails (the null-pointer write of line 101).  \<open>prepareTransparency\<close>,
  the draws and \<open>finalizeTransparency\<close> are void calls.  When
  \<open>finalizeTransparency\<close> is rejected (no targets were ever allocated), nothing is
  composited into the framebuffer, which keeps the clear colour.
\<close>

definition enter_frame :: "fragment list \<Rightarrow> app \<Rightarrow> frame_error + app" where
  "enter_frame frags a =
     (let a1 = a\<lparr>glfix := (glfix a)\<lparr>clear_color := (0, 0, 0, 1), clear_depth := 1, clear_stencil := 0\<rparr>,
                 framebuffer := 0\<rparr>;
          a2 = a1\<lparr>mvp := frame_mvp a1\<rparr>
      in bindE (map_sum GLErr id (upload_mvp (mvp_ubo a2) (mvp a2) (gl a2))) (\<lambda>g.
         let a3 = a2\<lparr>gl := g, calls := calls a2 @ [ShaderPrepare]\<rparr>;
             a4 = a3\<lparr>transp := void_call (prepare (width a3) (height a3)) (transp a3)\<rparr>;
             a5 = a4\<lparr>transp := void_call (draw frags) (transp a4), gl := gpu_submit_draw (gl a4),
                     calls := calls a4 @ [MeshRender]\<rparr>
         in Inr (case finalize (transp a5) of
                   Inl e \<Rightarrow> a5
                 | Inr c3 \<Rightarrow> a5\<lparr>transp := c3, framebuffer := (case comp_output c3 of None \<Rightarrow> 0 | Some v \<Rightarrow> v)\<rparr>)))"

text \<open>
  Lines 121--130 of \<open>main\<close>: \<open>init()\<close> followed by \<open>resize(800, 800)\<close> for the
  window created with that size.
\<close>

definition main_startup :: "nat \<Rightarrow> frame_error + app" where
  "main_startup budget =
     (let width = 800; height = 800
      in bindE (init_app budget) (\<lambda>a. Inr (resize_app width height a)))"

subsection \<open>One frame, computed\<close>

text \<open>
  When the upload succeeds and the compositor is idle with targets, a frame
  succeeds and its effect is: the new matrix in \<open>mvp\<close>, the upload and the mesh
  library's draw in the buffer state, the two collaborator calls logged, the
  compositor back in \<open>Idle\<close> with the resolved pixel in the framebuffer.
\<close>

definition frame_post :: "fragment list \<Rightarrow> gl_buffers \<Rightarrow> app \<Rightarrow> app" where
  "frame_post fs g a =
     a\<lparr>glfix := (glfix a)\<lparr>clear_color := (0, 0, 0, 1), clear_depth := 1, clear_stencil := 0\<rparr>,
       framebuffer := resolve (foldl blend_fragment clear_pixel fs),
       mvp := frame_mvp a, gl := gpu_submit_draw g, calls := calls a @ [ShaderPrepare, MeshRender],
       transp := (transp a)\<lparr>comp_phase := Idle, comp_pixel := foldl blend_fragment clear_pixel fs,
                            comp_output := Some (resolve (foldl blend_fragment clear_pixel fs))\<rparr>\<rparr>"

text \<open>Without targets every compositor call of the frame is rejected: the frame
  still uploads, prepares the shaders and renders, but composites nothing.\<close>

definition frame_skip :: "gl_buffers \<Rightarrow> app \<Rightarrow> app" where
  "frame_skip g a =
     a\<lparr>glfix := (glfix a)\<lparr>clear_color := (0, 0, 0, 1), clear_depth := 1, clear_stencil := 0\<rparr>,
       framebuffer := 0, mvp := frame_mvp a, gl := gpu_submit_draw g,
       calls := calls a @ [ShaderPrepare, MeshRender]\<rparr>"

lemma frame_mvp_simps [simp]:
  "frame_mvp (a\<lparr>glfix := x\<rparr>) = frame_mvp a" "frame_mvp (a\<lparr>framebuffer := y\<rparr>) = frame_mvp a"
  by (simp_all add: frame_mvp_def)

lemma enter_frame_Inr:
  assumes "upload_mvp (mvp_ubo a) (frame_mvp a) (gl a) = Inr g"
    and "comp_phase (transp a) = Idle" "comp_targets (transp a) = Some t"
  shows "enter_frame fs a = Inr (frame_post fs g a)"
  using assms by (simp add: enter_frame_def frame_post_def prepare_def draw_def finalize_def void_call_def Let_def)

text \<open>With no targets (no successful \<open>reshape\<close> yet) \<open>prepare\<close> is rejected, and
  so are the draws and \<open>finalize\<close>, the compositor being still \<open>Idle\<close>.\<close>

lemma enter_frame_no_targets:
  assumes "upload_mvp (mvp_ubo a) (frame_mvp a) (gl a) = Inr g"
    and "comp_phase (transp a) = Idle" "comp_targets (transp a) = None"
  shows "enter_frame fs a = Inr (frame_skip g a)"
  using assms by (simp add: enter_frame_def frame_skip_def prepare_def draw_def finalize_def void_call_def Let_def)

lemma enter_frame_calls:
  "enter_frame fs a = Inr a' \<Longrightarrow> calls a' = calls a @ [ShaderPrepare, MeshRender]"
  by (cases "finalize (void_call (draw fs) (void_call (prepare (width a) (height a)) (transp a)))")
    (auto simp: enter_frame_def Let_def bindE_Inr_iff)

text \<open>What a frame leaves alone: the projection, the sizes, the camera, and the
  fixed-function state apart from the clear values of lines 89--91.\<close>

lemma enter_frame_keeps:
  assumes "enter_frame fs a = Inr a'"
  shows "proj a' = proj a" "width a' = width a" "height a' = height a" "camera a' = camera a"
    "glfix a' = (glfix a)\<lparr>clear_color := (0, 0, 0, 1), clear_depth := 1, clear_stencil := 0\<rparr>"
  using assms
  by (cases "finalize (void_call (draw fs) (void_call (prepare (width a) (height a)) (transp a)))";
      auto simp: enter_frame_def Let_def bindE_Inr_iff)+

lemma enter_frame_size:
  "enter_frame fs a = Inr a' \<Longrightarrow> width a' = width a \<and> height a' = height a"
  by (simp add: enter_frame_keeps)

lemma resize_app_size [simp]:
  "width (resize_app w h a) = w" "height (resize_app w h a) = h"
  "proj (resize_app w h a) = resize_projection w h (proj a)"
  "glfix (resize_app w h a) = (glfix a)\<lparr>viewport := (0, 0, w, h)\<rparr>"
  by (simp_all add: resize_app_def Let_def split: sum.splits)

subsection \<open>Reachable states of the program\<close>

text \<open>
  From \<open>init()\<close> the program resizes, renders frames, and changes the camera
  (through the input handlers of \<open>main\<close>, whose camera calls keep the camera
  invariant: the interface this theory asks of them), while the GPU retires the
  reads of earlier frames.
\<close>

inductive app_reach :: "nat \<Rightarrow> app \<Rightarrow> bool" for B where
  init: "init_app B = Inr a \<Longrightarrow> app_reach B a"
| resize: "app_reach B a \<Longrightarrow> app_reach B (resize_app w h a)"
| frame: "app_reach B a \<Longrightarrow> enter_frame fs a = Inr a' \<Longrightarrow> app_reach B a'"
| cam: "app_reach B a \<Longrightarrow> cam_inv c \<Longrightarrow> app_reach B (a\<lparr>camera := c\<rparr>)"
| gpu: "app_reach B a \<Longrightarrow> app_reach B (a\<lparr>gl := gpu_retire (gl a)\<rparr>)"

definition app_inv :: "nat \<Rightarrow> app \<Rightarrow> bool" where
  "app_inv B a \<longleftrightarrow>
     perspective_shape (proj a) \<and> chan_reach (mvp_ubo a) (gl a) \<and>
     comp_inv B (transp a) \<and> comp_phase (transp a) = Idle \<and> cam_inv (camera a) \<and>
     depth_test (glfix a) \<and> depth_func (glfix a) = Some GL_LEQUAL \<and> depth_range (glfix a) = (0, 1)"

lemma init_app_Inr:
  assumes "init_app B = Inr a"
  obtains g ubo where "create_mvp_ubo gl_buffers_init = Inr (g, ubo, 0)"
    "a = \<lparr>proj = init_projection, width = 0, height = 0,
            glfix = init_fixed_state gl_fixed_default, gl = g, mvp_ubo = ubo, mvp_ubo_index = 0,
            camera = activate default_camera, mvp = mat_zero,
            transp = init_compositor B, framebuffer = 0, calls = [ShaderInit, MeshInit]\<rparr>"
proof -
  from assms obtain g ubo idx where c: "create_mvp_ubo gl_buffers_init = Inr (g, ubo, idx)"
    and a: "a = \<lparr>proj = init_projection, width = 0, height = 0,
            glfix = init_fixed_state gl_fixed_default, gl = g, mvp_ubo = ubo, mvp_ubo_index = idx,
            camera = activate default_camera, mvp = mat_zero,
            transp = init_compositor B, framebuffer = 0, calls = [ShaderInit, MeshInit]\<rparr>"
    by (auto simp: init_app_def bindE_Inr_iff split: prod.splits)
  moreover from c have "idx = 0" by (rule create_mvp_ubo_index)
  ultimately show ?thesis using that by simp
qed

lemma app_inv_init: "init_app B = Inr a \<Longrightarrow> app_inv B a"
  by (erule init_app_Inr)
    (simp add: app_inv_def perspective_shape_init_projection comp_inv_init init_fixed_state_def
      cam_inv_activate cam_inv_default chan_reach.created)

lemma app_inv_resize [inv_preserved]: "app_inv B a \<Longrightarrow> app_inv B (resize_app w h a)"
  by (auto simp: resize_app_def app_inv_def Let_def perspective_shape_resize
      split: sum.splits dest: comp_inv_reshape reshape_Inr [THEN iffD1])

lemma app_inv_frame [inv_preserved]:
  assumes "app_inv B a" "enter_frame fs a = Inr a'"
  shows "app_inv B a'"
proof -
  from assms(1) obtain g where up: "upload_mvp (mvp_ubo a) (frame_mvp a) (gl a) = Inr g"
    by (auto simp: app_inv_def elim: upload_exists)
  show ?thesis
  proof (cases "comp_targets (transp a)")
    case None
    with assms up have "a' = frame_skip g a"
      by (simp add: app_inv_def enter_frame_no_targets)
    with assms(1) up show ?thesis
      by (auto simp: app_inv_def frame_skip_def intro: chan_reach.draw chan_reach.upload)
  next
    case (Some t)
    with assms up have "a' = frame_post fs g a"
      by (simp add: app_inv_def enter_frame_Inr)
    with assms(1) up show ?thesis
      by (auto simp: app_inv_def frame_post_def intro: chan_reach.draw chan_reach.upload)
  qed
qed

lemma app_inv_cam [inv_preserved]: "app_inv B a \<Longrightarrow> cam_inv c \<Longrightarrow> app_inv B (a\<lparr>camera := c\<rparr>)"
  by (simp add: app_inv_def)

lemma app_inv_gpu [inv_preserved]: "app_inv B a \<Longrightarrow> app_inv B (a\<lparr>gl := gpu_retire (gl a)\<rparr>)"
  by (simp add: app_inv_def chan_reach.retire)

lemma app_reach_inv: "app_reach B a \<Longrightarrow> app_inv B a"
  by (induction rule: app_reach.induct) (auto intro: app_inv_init inv_preserved)


text \<open>The projection global always belongs to the stored sizes: it is the one of
  \<open>init()\<close> until the first \<open>resize\<close>, and the one the last \<open>resize(width, height)\<close>
  computed from it ever after.\<close>

lemma proj_tracks_size:
  "app_reach B a \<Longrightarrow>
     (proj a = init_projection \<and> width a = 0 \<and> height a = 0) \<or>
     proj a = resize_projection (width a) (height a) init_projection"
proof (induction rule: app_reach.induct)
  case (init a)
  then show ?case by (auto elim: init_app_Inr)
next
  case (resize a w h)
  then show ?case by (auto simp: resize_resize)
next
  case (frame a fs a')
  then show ?case by (simp add: enter_frame_keeps)
qed simp_all

lemma frame_step:
  assumes "app_reach B a" "enter_frame fs a = Inr a'"
  obtains g where "upload_mvp (mvp_ubo a) (frame_mvp a) (gl a) = Inr g"
      "comp_targets (transp a) \<noteq> None" "a' = frame_post fs g a"
    | g where "upload_mvp (mvp_ubo a) (frame_mvp a) (gl a) = Inr g"
      "comp_targets (transp a) = None" "a' = frame_skip g a"
proof -
  from assms(1) have inv: "app_inv B a" by (rule app_reach_inv)
  then obtain g where up: "upload_mvp (mvp_ubo a) (frame_mvp a) (gl a) = Inr g"
    by (auto simp: app_inv_def elim: upload_exists)
  show ?thesis
  proof (cases "comp_targets (transp a)")
    case None
    with inv up assms(2) have "a' = frame_skip g a" by (simp add: app_inv_def enter_frame_no_targets)
    with None up show ?thesis using that by blast
  next
    case (Some t)
    with inv up assms(2) have "a' = frame_post fs g a" by (simp add: app_inv_def enter_frame_Inr)
    with Some up show ?thesis using that by blast
  qed
qed

text \<open>What every frame of a reachable state does, with or without targets: the
  upload and the draw reach the GPU, the combined matrix is stored, the targets stay,
  and the framebuffer receives the resolved pixel when there are targets.\<close>

lemma frame_effect:
  assumes "app_reach B a" "enter_frame fs a = Inr a'"
  obtains g where "upload_mvp (mvp_ubo a) (frame_mvp a) (gl a) = Inr g"
    "gl a' = gpu_submit_draw g" "mvp a' = frame_mvp a"
    "comp_targets (transp a') = comp_targets (transp a)"
    "framebuffer a' = (if comp_targets (transp a) = None then 0 else resolve (foldl blend_fragment clear_pixel fs))"
  using assms
proof (rule frame_step)
  fix g assume "upload_mvp (mvp_ubo a) (frame_mvp a) (gl a) = Inr g"
    "comp_targets (transp a) \<noteq> None" "a' = frame_post fs g a"
  then show ?thesis by (intro that [of g]) (auto simp: frame_post_def)
next
  fix g assume "upload_mvp (mvp_ubo a) (frame_mvp a) (gl a) = Inr g"
    "comp_targets (transp a) = None" "a' = frame_skip g a"
  then show ?thesis by (intro that [of g]) (simp_all add: frame_skip_def)
qed

text \<open>The composite a frame with targets writes when the mesh library sends the
  opaque fragments before the translucent ones.\<close>

lemma frame_composite:
  assumes "app_reach B a" "comp_targets (transp a) \<noteq> None" "enter_frame (os @ ts) a = Inr a'"
    and "list_all (\<lambda>f. \<not> is_translucent f) os" "list_all is_translucent ts"
  shows "framebuffer a' = oit_spec (opaque_color (foldl blend_fragment clear_pixel os))
                                   (opaque_depth (foldl blend_fragment clear_pixel os)) (mset ts)"
proof -
  obtain g where "framebuffer a' = (if comp_targets (transp a) = None then 0
                                     else resolve (foldl blend_fragment clear_pixel (os @ ts)))"
    using assms(1,3) by (rule frame_effect)
  moreover have "accum_color (foldl blend_fragment clear_pixel os) = 0"
       "accum_weight (foldl blend_fragment clear_pixel os) = 0"
       "revealage (foldl blend_fragment clear_pixel os) = 1"
    using foldl_blend_opaque_accum [OF assms(4), of clear_pixel] by (simp_all add: clear_pixel_def)
  ultimately show ?thesis
    using assms(2,5) by (simp add: resolve_refines_oit_spec)
qed

lemma enter_frame_total:
  assumes "app_reach B a"
  obtains a' where "enter_frame fs a = Inr a'"
proof -
  from assms have inv: "app_inv B a" by (rule app_reach_inv)
  then obtain g where "upload_mvp (mvp_ubo a) (frame_mvp a) (gl a) = Inr g"
    by (auto simp: app_inv_def elim: upload_exists)
  with inv show ?thesis using that
    by (cases "comp_targets (transp a)") (simp_all add: app_inv_def enter_frame_Inr enter_frame_no_targets)
qed

lemma enter_frame_ok:
  assumes "app_reach B a" "comp_targets (transp a) = Some t"
  obtains g where "enter_frame fs a = Inr (frame_post fs g a)"
proof -
  from assms(1) have inv: "app_inv B a" by (rule app_reach_inv)
  then obtain g where "upload_mvp (mvp_ubo a) (frame_mvp a) (gl a) = Inr g"
    by (auto simp: app_inv_def elim: upload_exists)
  with inv assms(2) show ?thesis using that by (simp add: app_inv_def enter_frame_Inr)
qed

lemma resize_app_targets:
  "comp_targets (transp a) \<noteq> None \<Longrightarrow> comp_targets (transp (resize_app w h a)) \<noteq> None"
  by (auto simp: resize_app_def Let_def reshape_Inr split: sum.splits)

text \<open>With a texture budget below one set of targets every \<open>reshape\<close> fails, so
  the compositor never gets targets, every frame is a \<open>frame_skip\<close>, and nothing
  is ever composited or written to the framebuffer.\<close>

lemma reshape_small_budget:
  "comp_inv B c \<Longrightarrow> B < targets_per_viewport \<Longrightarrow> reshape w h c \<noteq> Inr c'"
  by (auto simp: reshape_def comp_inv_def Let_def)

lemma app_reach_small_budget:
  assumes "app_reach B a" "B < targets_per_viewport"
  shows "comp_targets (transp a) = None \<and> comp_output (transp a) = None \<and> framebuffer a = 0"
  using assms
proof (induction rule: app_reach.induct)
  case (init a)
  then show ?case by (auto elim: init_app_Inr simp: init_compositor_def)
next
  case (resize a w h)
  from resize.hyps have "comp_inv B (transp a)" by (simp add: app_reach_inv [THEN app_inv_def [THEN iffD1]])
  with resize.prems have "\<forall>c'. reshape w h (transp a) \<noteq> Inr c'" by (simp add: reshape_small_budget)
  with resize.IH resize.prems show ?case by (simp add: resize_app_def Let_def split: sum.splits)
next
  case (frame a fs a')
  from frame.hyps(1,2) show ?case
  proof (rule frame_step)
    fix g assume "comp_targets (transp a) \<noteq> None"
    with frame.IH frame.prems show ?thesis by simp
  next
    fix g assume "a' = frame_skip g a"
    with frame.IH frame.prems show ?thesis by (simp add: frame_skip_def)
  qed
qed simp_all

lemma resize_app_calls [simp]: "calls (resize_app w h a) = calls a"
  by (simp add: resize_app_def Let_def split: sum.splits)

text \<open>The log of collaborator calls in every reachable state.\<close>

lemma calls_shape:
  assumes "app_reach B a"
  shows "\<exists>n. calls a = [ShaderInit, MeshInit] @ concat (replicate n [ShaderPrepare, MeshRender])"
  using assms
proof (induction rule: app_reach.induct)
  case (init a)
  then show ?case by (auto elim: init_app_Inr intro: exI [of _ 0])
next
  case (frame a fs a')
  then obtain n where "calls a = [ShaderInit, MeshInit] @ concat (replicate n [ShaderPrepare, MeshRender])"
    by blast
  with enter_frame_calls [OF frame.hyps(2)] show ?case
    by (intro exI [of _ "Suc n"]) (simp add: replicate_append_same [symmetric])
qed simp_all

lemma main_startup_reach:
  "main_startup B = Inr a \<Longrightarrow> app_reach B a"
  by (auto simp: main_startup_def bindE_Inr_iff intro: app_reach.init app_reach.resize)

lemma main_startup_8:
  "main_startup 8 = Inr (projr (main_startup 8))"
  "comp_targets (transp (projr (main_startup 8))) =
     Some \<lparr>tgt_width = 800, tgt_height = 800, tgt_textures = [1, 2, 3, 4]\<rparr>"
  by (simp_all add: main_startup_def init_app_def create_mvp_ubo_def gl_buffers_init_def gl_buffer_defs
      resize_app_def reshape_def init_compositor_def targets_per_viewport_def Let_def upt_rec)

lemma start_reach: "app_reach 8 (projr (main_startup 8))"
  by (rule main_startup_reach) (rule main_startup_8(1))

lemma start_frame:
  obtains a' where "enter_frame fs (projr (main_startup 8)) = Inr a'"
proof -
  have "app_inv 8 (projr (main_startup 8))" using start_reach by (rule app_reach_inv)
  then obtain g where "upload_mvp (mvp_ubo (projr (main_startup 8))) (frame_mvp (projr (main_startup 8)))
                          (gl (projr (main_startup 8))) = Inr g"
    by (auto simp: app_inv_def elim: upload_exists)
  with \<open>app_inv 8 _\<close> show ?thesis using that
    by (simp add: app_inv_def enter_frame_Inr main_startup_8(2))
qed

subsection \<open>Properties of the frame loop\<close>

text \<open>
  C4: from any reachable state whose compositor has render targets, a frame
  succeeds (no GL error, no compositor error), calls the shader state and then the
  mesh library once each, and leaves the compositor back in \<open>Idle\<close> with the
  same targets: the per-frame state machine \<open>Idle \<rightarrow> Accepting \<rightarrow> Idle\<close>
  closes within \<open>enterFrame()\<close>.
\<close>

theorem frame_protocol:
  assumes "app_reach B a" "comp_targets (transp a) \<noteq> None"
  shows "\<exists>a'. enter_frame fs a = Inr a' \<and> comp_phase (transp a') = Idle \<and>
              calls a' = calls a @ [ShaderPrepare, MeshRender] \<and>
              comp_targets (transp a') = comp_targets (transp a)"
proof -
  from assms(1) have inv: "app_inv B a" by (rule app_reach_inv)
  then obtain g where up: "upload_mvp (mvp_ubo a) (frame_mvp a) (gl a) = Inr g"
    by (auto simp: app_inv_def elim: upload_exists)
  from assms(2) obtain t where "comp_targets (transp a) = Some t" by blast
  with inv up show ?thesis by (simp add: app_inv_def enter_frame_Inr frame_post_def)
qed

theorem frame_protocol_witness:
  "\<exists>a'. enter_frame [] (projr (main_startup 8)) = Inr a' \<and> comp_phase (transp a') = Idle \<and>
        calls a' = calls (projr (main_startup 8)) @ [ShaderPrepare, MeshRender] \<and>
        comp_targets (transp a') = comp_targets (transp (projr (main_startup 8)))"
  by (rule frame_protocol [OF start_reach]) (simp add: main_startup_8(2))

text \<open>
  C2: the draw a frame submits reads the matrix stored by that frame's upload,
  which is \<open>projectionMatrix * viewMatrix\<close> and maps every vertex as the projection
  after the view; the reads the GPU still owes to earlier frames see what they saw.
\<close>

theorem frame_draw_reads_combined_matrix:
  assumes "app_reach B a" "enter_frame fs a = Inr a'"
  shows "map (stores (gl a')) (gpu_reads (gl a')) = map (stores (gl a)) (gpu_reads (gl a)) @ [Some (mvp a')] \<and>
         (\<forall>v. mat_vec (mvp a') v = mat_vec (projectionMatrix (proj a)) (mat_vec (view_matrix (camera a)) v))"
proof -
  obtain g where up: "upload_mvp (mvp_ubo a) (frame_mvp a) (gl a) = Inr g"
    and a': "gl a' = gpu_submit_draw g" "mvp a' = frame_mvp a"
    using assms by (rule frame_effect)
  from assms(1) have "chan_reach (mvp_ubo a) (gl a)" by (simp add: app_reach_inv [THEN app_inv_def [THEN iffD1]])
  from upload_mvp_draw_reads [OF this up] show ?thesis
    by (simp add: a' frame_mvp_def mat_vec_mat_mul)
qed

theorem frame_draw_reads_combined_matrix_witness:
  "\<exists>a'. enter_frame [] (projr (main_startup 8)) = Inr a' \<and>
     map (stores (gl a')) (gpu_reads (gl a')) =
       map (stores (gl (projr (main_startup 8)))) (gpu_reads (gl (projr (main_startup 8)))) @ [Some (mvp a')]"
proof -
  obtain a' where f: "enter_frame [] (projr (main_startup 8)) = Inr a'" by (rule start_frame)
  show ?thesis using frame_draw_reads_combined_matrix [OF start_reach f] f by blast
qed

text \<open>
  C5: a frame with render targets whose mesh library sends opaque fragments and
  then translucent ones composites exactly the abstract specification
  \<open>oit_spec\<close> of the opaque result and the multiset of the translucent fragments.
  Without targets the compositor's calls are rejected and nothing is composited.
\<close>

theorem frame_composite_refines_oit_spec:
  assumes "app_reach B a" "comp_targets (transp a) \<noteq> None" "enter_frame (os @ ts) a = Inr a'"
    and "list_all (\<lambda>f. \<not> is_translucent f) os" "list_all is_translucent ts"
  shows "framebuffer a' = oit_spec (opaque_color (foldl blend_fragment clear_pixel os))
                                   (opaque_depth (foldl blend_fragment clear_pixel os)) (mset ts)"
  using assms by (rule frame_composite)

theorem frame_composite_refines_oit_spec_witness:
  "\<exists>a'. enter_frame ([Opaque (1/2) 1] @ [Translucent (1/4) 0 (1/2) 1]) (projr (main_startup 8)) = Inr a' \<and>
     framebuffer a' = oit_spec (opaque_color (foldl blend_fragment clear_pixel [Opaque (1/2) 1]))
                        (opaque_depth (foldl blend_fragment clear_pixel [Opaque (1/2) 1]))
                        (mset [Translucent (1/4) 0 (1/2) 1])"
proof -
  obtain a' where f: "enter_frame ([Opaque (1/2) 1] @ [Translucent (1/4) 0 (1/2) 1]) (projr (main_startup 8)) = Inr a'"
    by (rule start_frame)
  show ?thesis using frame_composite_refines_oit_spec [OF start_reach _ f] f by (simp add: main_startup_8(2))
qed

text \<open>
  C3: order independence (spec section 8): two frames that differ only in the
  order of their translucent fragments write the same colour to the framebuffer.
\<close>

theorem frame_translucent_order_independent:
  assumes "app_reach B a" "enter_frame (os @ ts1) a = Inr a1" "enter_frame (os @ ts2) a = Inr a2"
    and "mset ts1 = mset ts2" "list_all is_translucent ts1"
  shows "framebuffer a1 = framebuffer a2"
proof -
  obtain g1 where a1: "framebuffer a1 = (if comp_targets (transp a) = None then 0
                                          else resolve (foldl blend_fragment clear_pixel (os @ ts1)))"
    using assms(1,2) by (rule frame_effect)
  obtain g2 where a2: "framebuffer a2 = (if comp_targets (transp a) = None then 0
                                          else resolve (foldl blend_fragment clear_pixel (os @ ts2)))"
    using assms(1,3) by (rule frame_effect)
  show ?thesis
    using foldl_blend_perm [OF assms(5,4)] by (simp add: a1 a2)
qed

theorem frame_translucent_order_independent_witness:
  "\<exists>a1 a2.
     enter_frame ([Opaque (1/2) 1] @ [Translucent (1/4) 1 (1/2) 1, Translucent (1/8) 0 (1/4) 2]) (projr (main_startup 8)) = Inr a1 \<and>
     enter_frame ([Opaque (1/2) 1] @ [Translucent (1/8) 0 (1/4) 2, Translucent (1/4) 1 (1/2) 1]) (projr (main_startup 8)) = Inr a2 \<and>
     framebuffer a1 = framebuffer a2"
proof -
  obtain a1 where f1: "enter_frame ([Opaque (1/2) 1] @ [Translucent (1/4) 1 (1/2) 1, Translucent (1/8) 0 (1/4) 2]) (projr (main_startup 8)) = Inr a1"
    by (rule start_frame)
  obtain a2 where f2: "enter_frame ([Opaque (1/2) 1] @ [Translucent (1/8) 0 (1/4) 2, Translucent (1/4) 1 (1/2) 1]) (projr (main_startup 8)) = Inr a2"
    by (rule start_frame)
  have "framebuffer a1 = framebuffer a2"
    by (rule frame_translucent_order_independent [OF start_reach f1 f2]) simp_all
  with f1 f2 show ?thesis by blast
qed

text \<open>
  C9: a \<open>resize\<close> with a non-positive width or height leaves the compositor
  and its render targets untouched, but \<open>resize()\<close> has no precondition check of its
  own: it still stores the sizes in \<open>width\<close> and \<open>height\<close> (passed to
  \<open>prepareTransparency\<close> every frame) and in the viewport.
\<close>

theorem resize_rejected_keeps_targets:
  assumes "w \<le> 0 \<or> h \<le> 0"
  shows "transp (resize_app w h a) = transp a \<and> width (resize_app w h a) = w \<and>
         height (resize_app w h a) = h \<and> viewport (glfix (resize_app w h a)) = (0, 0, w, h)"
  using assms by (auto simp: resize_app_def reshape_def)

theorem resize_rejected_keeps_targets_witness:
  "transp (resize_app 0 0 (projr (main_startup 8))) = transp (projr (main_startup 8)) \<and>
   width (resize_app 0 0 (projr (main_startup 8))) = 0 \<and>
   height (resize_app 0 0 (projr (main_startup 8))) = 0 \<and>
   comp_targets (transp (resize_app 0 0 (projr (main_startup 8)))) =
     Some \<lparr>tgt_width = 800, tgt_height = 800, tgt_textures = [1, 2, 3, 4]\<rparr>"
  using resize_rejected_keeps_targets [of 0 0 "projr (main_startup 8)"] by (simp add: main_startup_8(2))

text \<open>
  C10: reshape idempotence (spec section 8): two \<open>resize(w, h)\<close> with the same
  positive sizes give targets of that size, hold the same number of textures as
  one, and leave the same remaining budget: nothing leaks.
\<close>

theorem resize_twice_no_leak:
  assumes "app_reach B a" "0 < w" "0 < h" "targets_per_viewport \<le> B"
  shows "map_option (\<lambda>t. (tgt_width t, tgt_height t)) (comp_targets (transp (resize_app w h (resize_app w h a)))) = Some (w, h) \<and>
         length (live_textures (transp (resize_app w h (resize_app w h a)))) = length (live_textures (transp (resize_app w h a))) \<and>
         texture_budget (transp (resize_app w h (resize_app w h a))) = texture_budget (transp (resize_app w h a))"
proof -
  have ok: "\<And>a. app_inv B a \<Longrightarrow> \<exists>c. reshape w h (transp a) = Inr c"
    using assms(2-4) by (auto simp: app_inv_def comp_inv_def reshape_Inr)
  have ra: "\<And>a. app_inv B a \<Longrightarrow> \<exists>c. reshape w h (transp a) = Inr c \<and> transp (resize_app w h a) = c"
    using ok by (fastforce simp: resize_app_def Let_def)
  from assms(1) have i0: "app_inv B a" by (rule app_reach_inv)
  then have i1: "app_inv B (resize_app w h a)" by (rule app_inv_resize)
  from ra [OF i0] obtain c1 where c1: "reshape w h (transp a) = Inr c1" "transp (resize_app w h a) = c1" by blast
  from ra [OF i1] obtain c2 where c2: "reshape w h c1 = Inr c2" "transp (resize_app w h (resize_app w h a)) = c2"
    using c1(2) by auto
  from i0 c1(1) have "comp_inv B c1" by (auto simp: app_inv_def intro: comp_inv_reshape)
  with c1 c2 show ?thesis by (auto simp: reshape_Inr comp_inv_def)
qed

theorem resize_twice_no_leak_witness:
  "length (live_textures (transp (resize_app 640 480 (resize_app 640 480 (projr (main_startup 8)))))) =
   length (live_textures (transp (resize_app 640 480 (projr (main_startup 8)))))"
  using resize_twice_no_leak [OF start_reach, of 640 480] by (simp add: targets_per_viewport_def)

text \<open>
  C17: the spec's invariant of the camera state (section 3), for the matrix the
  program actually uses.  Line 95 multiplies the projection by the camera's view
  matrix, and that view matrix is always orthonormal, with no shear or scale: its
  upper-left \<open>3 \<times> 3\<close> rows are pairwise orthogonal unit vectors and its bottom row
  is \<open>(0, 0, 0, 1)\<close>.  It takes the eye position to the origin, so the combined
  matrix sends the eye where the projection sends the origin.  This holds for
  every focus, distance, yaw and pitch.
\<close>

theorem frame_view_rigid:
  assumes "i < 3" "j < 3"
  shows "dot3 (mrow3 (view_matrix (camera a)) i) (mrow3 (view_matrix (camera a)) j) = (if i = j then 1 else 0) \<and>
         vw (col0 (view_matrix (camera a))) = 0 \<and> vw (col1 (view_matrix (camera a))) = 0 \<and>
         vw (col2 (view_matrix (camera a))) = 0 \<and> vw (col3 (view_matrix (camera a))) = 1 \<and>
         mat_vec (frame_mvp a) (eye_position (camera a)) =
           mat_vec (projectionMatrix (proj a)) \<lparr>vx = 0, vy = 0, vz = 0, vw = 1\<rparr>"
  using view_matrix_orthonormal [OF assms, of "camera a"] by (simp add: frame_mvp_def mat_vec_mat_mul)

theorem frame_view_rigid_witness:
  "dot3 (mrow3 (view_matrix (camera ((projr (main_startup 8))\<lparr>camera := rotate (1/2) (1/3) default_camera\<rparr>))) 1)
        (mrow3 (view_matrix (camera ((projr (main_startup 8))\<lparr>camera := rotate (1/2) (1/3) default_camera\<rparr>))) 2) = 0"
  using frame_view_rigid [of 1 2 "(projr (main_startup 8))\<lparr>camera := rotate (1/2) (1/3) default_camera\<rparr>"] by simp

text \<open>
  C21: projection, camera and frame together: the combined matrix a frame uploads
  draws the camera's focus point at the centre of the viewport, at the depth of an
  eye-space point straight ahead at the camera distance.  By C8 that depth lies in
  \<open>[0, 1]\<close> whenever the distance lies between the near and the far plane.
\<close>

theorem focus_at_viewport_centre:
  assumes "app_reach B a"
  shows "window_x (width a) (ndc_x (mat_vec (frame_mvp a) (focus_point (camera a)))) = real_of_int (width a) / 2 \<and>
         window_y (height a) (ndc_y (mat_vec (frame_mvp a) (focus_point (camera a)))) = real_of_int (height a) / 2 \<and>
         window_depth 0 1 (ndc_z (mat_vec (frame_mvp a) (focus_point (camera a)))) =
           point_depth (proj a) 0 0 (- cam_distance (camera a))"
proof -
  from assms have inv: "app_inv B a" by (rule app_reach_inv)
  then have p: "perspective_shape (proj a)" and d: "0 < cam_distance (camera a)"
    by (auto simp: app_inv_def cam_inv_def min_distance_def)
  have v: "mat_vec (frame_mvp a) (focus_point (camera a)) =
             mat_vec (projectionMatrix (proj a)) (eye_point 0 0 (- cam_distance (camera a)))"
    by (simp add: frame_mvp_def mat_vec_mat_mul view_matrix_focus eye_point_def)
  show ?thesis
    using d by (simp add: v clip_of_shape [OF p] point_depth_def ndc_x_def ndc_y_def ndc_z_def window_x_def window_y_def)
qed

theorem focus_at_viewport_centre_witness:
  "window_x (width (projr (main_startup 8)))
     (ndc_x (mat_vec (frame_mvp (projr (main_startup 8))) (focus_point (camera (projr (main_startup 8)))))) = 400"
proof -
  have "width (projr (main_startup 8)) = 800"
    by (simp add: main_startup_def init_app_def create_mvp_ubo_def gl_buffers_init_def gl_buffer_defs
      resize_app_def reshape_def init_compositor_def targets_per_viewport_def Let_def)
  then show ?thesis using focus_at_viewport_centre [OF start_reach] by simp
qed

text \<open>
  C22: the contract of the external collaborators (spec section 6): in every
  reachable state the shader state and the mesh library have been initialised once,
  in that order, before any frame, and every frame since has called
  \<open>shaderState.prepareForRender()\<close> and then \<open>meshLibrary.render()\<close>, once each
  and never interleaved with another frame's calls.
\<close>

theorem collaborator_call_protocol:
  assumes "app_reach B a"
  shows "\<exists>n. calls a = [ShaderInit, MeshInit] @ concat (replicate n [ShaderPrepare, MeshRender])"
  using assms by (rule calls_shape)

theorem collaborator_call_protocol_witness:
  "\<exists>n. calls (projr (main_startup 8)) = [ShaderInit, MeshInit] @ concat (replicate n [ShaderPrepare, MeshRender])"
  by (rule collaborator_call_protocol [OF start_reach])

text \<open>
  C16: equivalence with the library's reference.  Once \<open>width\<close> and \<open>height\<close> are
  positive, the hand-built \<open>projectionMatrix\<close> of every reachable state is
  exactly \<open>glm::perspective(45 * DEGREE_TO_RAD, width / height, 0.1, 1000)\<close>.
  Lines 42--47 and 76--77 together compute the standard perspective matrix for the
  current aspect ratio, as spec section 4.2 asks.
\<close>

theorem frame_projection_is_glm_perspective:
  assumes "app_reach B a" "0 < width a" "0 < height a"
  shows "projectionMatrix (proj a) =
           glm_perspective (45 * DEGREE_TO_RAD) (real_of_int (width a) / real_of_int (height a)) (1 / 10) 1000"
proof -
  from proj_tracks_size [OF assms(1)] assms(2)
  have "proj a = resize_projection (width a) (height a) (init_projection_with 45 (1 / 10) 1000)"
    by (auto simp: init_projection_def)
  with assms(2,3) show ?thesis by (simp add: glm_perspective_resize)
qed

theorem frame_projection_is_glm_perspective_witness:
  "projectionMatrix (proj (resize_app 640 480 (projr (main_startup 8)))) =
     glm_perspective (45 * DEGREE_TO_RAD) (640 / 480) (1 / 10) 1000"
proof -
  have r: "app_reach 8 (resize_app 640 480 (projr (main_startup 8)))"
    using start_reach by (rule app_reach.resize)
  show ?thesis using frame_projection_is_glm_perspective [OF r] by simp
qed

text \<open>
  C24: the fixed-function state \<open>init()\<close> sets (lines 49--56) is never changed
  afterwards.  Back faces of counter-clockwise triangles are culled, the depth test
  is \<open>GL_LEQUAL\<close> with depth writes on and depth range \<open>[0, 1]\<close>.  The
  viewport always covers the stored \<open>width\<close> and \<open>height\<close>.
\<close>

theorem fixed_function_state_stable:
  assumes "app_reach B a"
  shows "cull_enabled (glfix a) \<and> cull_face (glfix a) = Some GL_BACK \<and> front_face (glfix a) = Some GL_CCW \<and>
         depth_test (glfix a) \<and> depth_mask (glfix a) \<and> depth_func (glfix a) = Some GL_LEQUAL \<and>
         depth_range (glfix a) = (0, 1) \<and> viewport (glfix a) = (0, 0, width a, height a)"
  using assms
proof (induction rule: app_reach.induct)
  case (init a)
  then show ?case by (auto elim: init_app_Inr simp: init_fixed_state_def gl_fixed_default_def)
next
  case (frame a fs a')
  then show ?case by (simp add: enter_frame_keeps)
qed simp_all

theorem fixed_function_state_stable_witness:
  "viewport (glfix (projr (main_startup 8))) = (0, 0, 800, 800) \<and> depth_func (glfix (projr (main_startup 8))) = Some GL_LEQUAL"
proof -
  have "width (projr (main_startup 8)) = 800" "height (projr (main_startup 8)) = 800"
    by (simp_all add: main_startup_def init_app_def create_mvp_ubo_def gl_buffers_init_def gl_buffer_defs
      reshape_def init_compositor_def targets_per_viewport_def Let_def)
  with fixed_function_state_stable [OF start_reach] show ?thesis by simp
qed

text \<open>
  C30: the spec's invariant of the render targets (section 3): their dimensions
  match the viewport.  With texture memory for one set of targets, in every
  reachable state where \<open>width\<close> and \<open>height\<close> are positive, the compositor's
  targets have exactly that size.  Every \<open>resize\<close> to a positive size
  reallocates them, and nothing else touches either.
\<close>

theorem targets_match_size:
  assumes "app_reach B a" "targets_per_viewport \<le> B" "0 < width a" "0 < height a"
  shows "map_option (\<lambda>t. (tgt_width t, tgt_height t)) (comp_targets (transp a)) = Some (width a, height a)"
  using assms(1,3,4)
proof (induction rule: app_reach.induct)
  case (init a)
  then show ?case by (auto elim: init_app_Inr)
next
  case (resize a w h)
  from resize.prems have wh: "0 < w" "0 < h" by simp_all
  from resize.hyps have "app_inv B a" by (rule app_reach_inv)
  with assms(2) wh obtain c where c: "reshape w h (transp a) = Inr c"
    by (auto simp: app_inv_def comp_inv_def reshape_Inr)
  then have "transp (resize_app w h a) = c" by (simp add: resize_app_def Let_def)
  with c wh show ?case by (simp add: reshape_Inr)
next
  case (frame a fs a')
  obtain g where "comp_targets (transp a') = comp_targets (transp a)" using frame.hyps by (rule frame_effect)
  with frame.IH frame.prems show ?case by (simp add: enter_frame_keeps [OF frame.hyps(2)])
qed simp_all

theorem targets_match_size_witness:
  "map_option (\<lambda>t. (tgt_width t, tgt_height t)) (comp_targets (transp (resize_app 640 480 (projr (main_startup 8))))) =
     Some (640, 480)"
proof -
  have r: "app_reach 8 (resize_app 640 480 (projr (main_startup 8)))"
    using start_reach by (rule app_reach.resize)
  show ?thesis using targets_match_size [OF r] by (simp add: targets_per_viewport_def)
qed

end
