(* ===== verification/MainLoop.thy ===== *)
theory MainLoop
  imports Frame
begin

text \<open>
  The frame loop of \<open>main\<close> (\<open>src/src/main.cpp\<close> lines 118--240): after
  \<open>init(); resize(800, 800)\<close> it repeats, while the window is open, one iteration
  of: count the frame and print the frame rate once per second (lines 144--150),
  \<open>enterFrame()\<close> (152), poll the keys W/S/A/D in an \<open>if/else if\<close> chain
  (156--171), and drain the window's event queue through a \<open>switch\<close> (174--238).

  SFML's window is the environment: one \<open>frame_input\<close> gives what it reports in
  one iteration (the time on the clock when line 145 reads it, counted from the
  clock's construction at line 138; the keys held; the events queued) and
  the fragments the mesh library draws in that frame.  The loop is a function of
  the list of iterations' inputs; the C++ loop may run forever, and the model gives
  its state after any finite prefix.  Mouse coordinates are C \<open>int\<close>s: the
  differences of lines 209--210 and the negations of 213--214 are computed with
  the 32-bit wrap \<open>i32\<close> before the conversion to \<open>float\<close>.
\<close>

datatype key = Key_W | Key_S | Key_A | Key_D

datatype mouse_button = MouseLeft | MouseRight | MouseMiddle

datatype event =
    Resized int int
  | MouseButtonPressed mouse_button int int
  | MouseButtonReleased mouse_button int int
  | MouseMoved int int
  | MouseWheelMoved int
  | KeyPressed
  | Closed
  | OtherEvent

text \<open>\<open>Resized w h\<close> carries \<open>window->GetWidth()\<close> and \<open>window->GetHeight()\<close> as
  read when the event is handled.\<close>

record frame_input =
  clock_now :: real
  keys_down :: "key list"
  frame_frags :: "fragment list"
  events :: "event list"

record loop_state =
  app_of :: app
  window_open :: bool
  mouseDown :: bool
  prevMouseX :: int
  prevMouseY :: int
  numFrames :: int
  clock_start :: real
  fps_log :: "int list"

definition update_camera :: "(camera \<Rightarrow> camera) \<Rightarrow> loop_state \<Rightarrow> loop_state" where
  "update_camera f s = s\<lparr>app_of := (app_of s)\<lparr>camera := f (camera (app_of s))\<rparr>\<rparr>"

text \<open>Lines 144--150: \<open>numFrames++\<close>, and when \<open>clock.GetElapsedTime()\<close>, the
  time since the clock was last started or reset, exceeds a second the count is
  printed (\<open>fps_log\<close> is what \<open>std::cout\<close> receives) and restarted, and
  \<open>clock.Reset()\<close> restarts the clock at the current time \<open>now\<close>.\<close>

definition count_frame :: "real \<Rightarrow> loop_state \<Rightarrow> loop_state" where
  "count_frame now s =
     (let s1 = s\<lparr>numFrames := i32 (numFrames s + 1)\<rparr>
      in if now - clock_start s1 > 1
         then s1\<lparr>fps_log := fps_log s1 @ [numFrames s1], numFrames := 0, clock_start := now\<rparr>
         else s1)"

text \<open>Lines 156--171: only the first held key of the chain acts.\<close>

definition poll_keys :: "key list \<Rightarrow> loop_state \<Rightarrow> loop_state" where
  "poll_keys ks s =
     (if Key_W \<in> set ks then update_camera (zoom 2) s
      else if Key_S \<in> set ks then update_camera (zoom (-1)) s
      else if Key_A \<in> set ks then update_camera (pan (-1) 0) s
      else if Key_D \<in> set ks then update_camera (pan 1 0) s
      else s)"

text \<open>Lines 206--214: the rotation a mouse move gives, \<open>scaleFactor = .008f\<close>.\<close>

definition mouse_delta :: "int \<Rightarrow> int \<Rightarrow> real" where
  "mouse_delta cur prev =
     (let diff = i32 (cur - prev); scaleFactor = 8 / 1000 in real_of_int (i32 (- diff)) * scaleFactor)"

text \<open>Lines 177--237: one event of the queue.\<close>

fun handle_event :: "event \<Rightarrow> loop_state \<Rightarrow> loop_state" where
  "handle_event (Resized w h) s = s\<lparr>app_of := resize_app w h (app_of s)\<rparr>"
| "handle_event (MouseButtonPressed b x y) s =
     (if b = MouseLeft then s\<lparr>mouseDown := True, prevMouseX := x, prevMouseY := y\<rparr> else s)"
| "handle_event (MouseButtonReleased b x y) s =
     (if b = MouseLeft then s\<lparr>mouseDown := False\<rparr> else s)"
| "handle_event (MouseMoved x y) s =
     (if mouseDown s
      then (update_camera (rotate (mouse_delta x (prevMouseX s)) (mouse_delta y (prevMouseY s))) s)
             \<lparr>prevMouseX := x, prevMouseY := y\<rparr>
      else s)"
| "handle_event (MouseWheelMoved delta) s = update_camera (zoom (1 * real_of_int delta)) s"
| "handle_event KeyPressed s = s"
| "handle_event Closed s = s\<lparr>window_open := False\<rparr>"
| "handle_event OtherEvent s = s"

text \<open>Lines 174--238: the inner \<open>while (window->GetEvent(myEvent))\<close> drains the
  whole queue, also after \<open>Closed\<close>.\<close>

definition handle_events :: "event list \<Rightarrow> loop_state \<Rightarrow> loop_state" where
  "handle_events es s = foldl (\<lambda>s e. handle_event e s) s es"

lemma handle_events_simps [simp]:
  "handle_events [] s = s"
  "handle_events (e # es) s = handle_events es (handle_event e s)"
  by (simp_all add: handle_events_def)

text \<open>Lines 140--239: \<open>while (window->IsOpened())\<close>, one input per iteration.  The
  loop leaves only when the window closes.  The one frame error of the model is a
  failed \<open>glMapBufferRange\<close>, after which line 101 writes through a null pointer;
  the run ends there with that error.  Rejected compositor calls are ignored inside
  \<open>enter_frame\<close>, as the C++ \<open>void\<close> calls are.\<close>

fun main_loop :: "frame_input list \<Rightarrow> loop_state \<Rightarrow> frame_error + loop_state" where
  "main_loop [] s = Inr s"
| "main_loop (fi # fis) s =
     (if \<not> window_open s then Inr s
      else let s1 = count_frame (clock_now fi) s
           in bindE (enter_frame (frame_frags fi) (app_of s1)) (\<lambda>a.
              let s2 = poll_keys (keys_down fi) (s1\<lparr>app_of := a\<rparr>)
              in main_loop fis (handle_events (events fi) s2)))"

text \<open>Lines 132--138: the loop's local variables before the first iteration; the
  clock \<open>sf::Clock clock\<close> starts at time 0.\<close>

definition loop_start :: "app \<Rightarrow> loop_state" where
  "loop_start a =
     \<lparr>app_of = a, window_open = True, mouseDown = False, prevMouseX = 0, prevMouseY = 0,
      numFrames = 0, clock_start = 0, fps_log = []\<rparr>"

text \<open>Lines 118--139: start-up, then the loop.\<close>

definition main_program :: "nat \<Rightarrow> frame_input list \<Rightarrow> frame_error + loop_state" where
  "main_program budget fis =
     bindE (main_startup budget) (\<lambda>a.
       main_loop fis (loop_start a))"

subsection \<open>Reachability, progress and the loop\<close>

lemma loop_start_simps [simp]:
  "app_of (loop_start a) = a" "window_open (loop_start a) = True" "mouseDown (loop_start a) = False"
  "prevMouseX (loop_start a) = 0" "prevMouseY (loop_start a) = 0" "numFrames (loop_start a) = 0"
  "clock_start (loop_start a) = 0" "fps_log (loop_start a) = []"
  by (simp_all add: loop_start_def)


lemma update_camera_reach:
  assumes "app_reach B (app_of s)" "\<And>c. cam_inv c \<Longrightarrow> cam_inv (f c)"
  shows "app_reach B (app_of (update_camera f s))"
proof -
  from assms(1) have "cam_inv (camera (app_of s))" by (simp add: app_reach_inv [THEN app_inv_def [THEN iffD1]])
  with assms show ?thesis by (simp add: update_camera_def app_reach.cam)
qed

lemma update_camera_keeps [simp]:
  "window_open (update_camera f s) = window_open s"
  "numFrames (update_camera f s) = numFrames s" "fps_log (update_camera f s) = fps_log s"
  "calls (app_of (update_camera f s)) = calls (app_of s)"
  "transp (app_of (update_camera f s)) = transp (app_of s)"
  "mouseDown (update_camera f s) = mouseDown s"
  by (simp_all add: update_camera_def)

lemma handle_event_reach: "app_reach B (app_of s) \<Longrightarrow> app_reach B (app_of (handle_event e s))"
  by (cases e) (auto intro: update_camera_reach app_reach.resize inv_preserved)

lemma handle_events_reach: "app_reach B (app_of s) \<Longrightarrow> app_reach B (app_of (handle_events es s))"
  by (induction es arbitrary: s) (simp_all add: handle_event_reach)

lemma poll_keys_reach: "app_reach B (app_of s) \<Longrightarrow> app_reach B (app_of (poll_keys ks s))"
  by (auto simp: poll_keys_def intro: update_camera_reach inv_preserved)

lemma count_frame_keeps [simp]:
  "app_of (count_frame t s) = app_of s" "window_open (count_frame t s) = window_open s"
  "mouseDown (count_frame t s) = mouseDown s"
  by (simp_all add: count_frame_def Let_def)

lemma main_loop_reach:
  "app_reach B (app_of s) \<Longrightarrow> main_loop fis s = Inr s' \<Longrightarrow> app_reach B (app_of s')"
proof (induction fis arbitrary: s)
  case Nil
  then show ?case by simp
next
  case (Cons fi fis)
  show ?case
  proof (cases "window_open s")
    case False
    with Cons.prems show ?thesis by simp
  next
    case True
    with Cons.prems(2) obtain a where
      f: "enter_frame (frame_frags fi) (app_of s) = Inr a" and
      r: "main_loop fis (handle_events (events fi) (poll_keys (keys_down fi) ((count_frame (clock_now fi) s)\<lparr>app_of := a\<rparr>))) = Inr s'"
      by (auto simp: Let_def bindE_Inr_iff)
    from Cons.prems(1) f have "app_reach B a" by (rule app_reach.frame)
    then show ?thesis
      by (intro Cons.IH [OF _ r] handle_events_reach poll_keys_reach) simp
  qed
qed

lemma main_program_reach:
  assumes "main_program B fis = Inr s"
  shows "app_reach B (app_of s)"
proof -
  from assms obtain a where a: "main_startup B = Inr a"
    and l: "main_loop fis (loop_start a) = Inr s"
    by (auto simp: main_program_def bindE_Inr_iff)
  from a have "app_reach B a" by (rule main_startup_reach)
  then have "app_reach B (app_of (loop_start a))" by simp
  from main_loop_reach [OF this l] show ?thesis .
qed


lemma handle_event_targets:
  "comp_targets (transp (app_of s)) \<noteq> None \<Longrightarrow> comp_targets (transp (app_of (handle_event e s))) \<noteq> None"
  by (cases e) (simp_all add: resize_app_targets)

lemma handle_events_targets:
  "comp_targets (transp (app_of s)) \<noteq> None \<Longrightarrow> comp_targets (transp (app_of (handle_events es s))) \<noteq> None"
proof (induction es arbitrary: s)
  case Nil
  then show ?case by simp
next
  case (Cons e es)
  from Cons.prems have "comp_targets (transp (app_of (handle_event e s))) \<noteq> None"
    by (rule handle_event_targets)
  then have "comp_targets (transp (app_of (handle_events es (handle_event e s)))) \<noteq> None"
    by (rule Cons.IH)
  then show ?case unfolding handle_events_simps(2) .
qed

lemma poll_keys_keeps [simp]:
  "transp (app_of (poll_keys ks s)) = transp (app_of s)"
  "calls (app_of (poll_keys ks s)) = calls (app_of s)"
  "window_open (poll_keys ks s) = window_open s"
  "numFrames (poll_keys ks s) = numFrames s" "fps_log (poll_keys ks s) = fps_log s"
  by (simp_all add: poll_keys_def)

lemma main_loop_progress:
  assumes "app_reach B (app_of s)"
  shows "\<exists>s'. main_loop fis s = Inr s'"
  using assms
proof (induction fis arbitrary: s)
  case Nil
  then show ?case by simp
next
  case (Cons fi fis)
  show ?case
  proof (cases "window_open s")
    case False
    then show ?thesis by simp
  next
    case True
    obtain a' where f: "enter_frame (frame_frags fi) (app_of s) = Inr a'"
      using Cons.prems by (rule enter_frame_total)
    have "app_reach B a'" using Cons.prems f by (rule app_reach.frame)
    then have "\<exists>s'. main_loop fis (handle_events (events fi)
                      (poll_keys (keys_down fi) ((count_frame (clock_now fi) s)\<lparr>app_of := a'\<rparr>))) = Inr s'"
      by (intro Cons.IH handle_events_reach poll_keys_reach) simp
    with True f show ?thesis by (simp add: Let_def)
  qed
qed


lemma handle_event_window:
  "window_open (handle_event e s) = (window_open s \<and> e \<noteq> Closed)"
  by (cases e) (simp_all add: update_camera_def)

lemma handle_events_window:
  "window_open (handle_events es s) = (window_open s \<and> Closed \<notin> set es)"
  by (induction es arbitrary: s) (auto simp: handle_event_window)

lemma poll_keys_window [simp]: "window_open (poll_keys ks s) = window_open s"
  by (simp add: poll_keys_def update_camera_def)

lemma main_loop_closed: "\<not> window_open s \<Longrightarrow> main_loop fis s = Inr s"
  by (cases fis) simp_all

lemma mouse_delta_wraps:
  "mouse_delta (2 ^ 31 - 1) (- 2) \<noteq> - real_of_int ((2 ^ 31 - 1) - (- 2)) * (8 / 1000)"
  by (simp add: mouse_delta_def i32_def)


lemma handle_event_counters [simp]:
  "calls (app_of (handle_event e s)) = calls (app_of s)"
  "numFrames (handle_event e s) = numFrames s" "fps_log (handle_event e s) = fps_log s"
  by (cases e; simp)+

lemma handle_events_counters [simp]:
  "calls (app_of (handle_events es s)) = calls (app_of s)"
  "numFrames (handle_events es s) = numFrames s" "fps_log (handle_events es s) = fps_log s"
  by (induction es arbitrary: s) simp_all

definition fps_ok :: "loop_state \<Rightarrow> bool" where
  "fps_ok s \<longleftrightarrow> sum_list (fps_log s) + numFrames s = int (count_list (calls (app_of s)) MeshRender) \<and>
               0 \<le> numFrames s \<and> numFrames s \<le> int (count_list (calls (app_of s)) MeshRender) \<and>
               list_all (\<lambda>x. 1 \<le> x) (fps_log s)"

lemma count_frame_ok:
  assumes "fps_ok s" "int (count_list (calls (app_of s)) MeshRender) + 1 < 2 ^ 31"
  shows "sum_list (fps_log (count_frame t s)) + numFrames (count_frame t s) =
           int (count_list (calls (app_of s)) MeshRender) + 1 \<and>
         0 \<le> numFrames (count_frame t s) \<and>
         numFrames (count_frame t s) \<le> int (count_list (calls (app_of s)) MeshRender) + 1 \<and>
         list_all (\<lambda>x. 1 \<le> x) (fps_log (count_frame t s))"
  using assms by (auto simp: fps_ok_def count_frame_def Let_def)

lemma main_loop_fps:
  "main_loop fis s = Inr s' \<Longrightarrow> fps_ok s \<Longrightarrow>
   int (count_list (calls (app_of s)) MeshRender) + int (length fis) < 2 ^ 31 \<Longrightarrow> fps_ok s'"
proof (induction fis arbitrary: s)
  case Nil
  then show ?case by simp
next
  case (Cons fi fis)
  show ?case
  proof (cases "window_open s")
    case False
    with Cons.prems show ?thesis by simp
  next
    case True
    with Cons.prems(1) obtain a where
      f: "enter_frame (frame_frags fi) (app_of s) = Inr a" and
      r: "main_loop fis (handle_events (events fi) (poll_keys (keys_down fi) ((count_frame (clock_now fi) s)\<lparr>app_of := a\<rparr>))) = Inr s'"
      by (auto simp: Let_def bindE_Inr_iff)
    have c: "count_list (calls a) MeshRender = Suc (count_list (calls (app_of s)) MeshRender)"
      using enter_frame_calls [OF f] by simp
    have "fps_ok (handle_events (events fi) (poll_keys (keys_down fi) ((count_frame (clock_now fi) s)\<lparr>app_of := a\<rparr>)))"
      using count_frame_ok [OF Cons.prems(2), of "clock_now fi"] Cons.prems(3) c by (simp add: fps_ok_def)
    moreover have "calls (app_of (handle_events (events fi) (poll_keys (keys_down fi)
                     ((count_frame (clock_now fi) s)\<lparr>app_of := a\<rparr>)))) = calls a"
      by simp
    moreover have "int (count_list (calls a) MeshRender) + int (length fis) < 2 ^ 31"
      using Cons.prems(3) c by simp
    ultimately show ?thesis using Cons.IH [OF r] by simp
  qed
qed

lemma init_app_ok: "\<exists>a. init_app B = Inr a"
  by (simp add: init_app_def create_mvp_ubo_def gl_buffers_init_def gl_buffer_defs Let_def)

lemma main_program_progress: "\<exists>s. main_program B fis = Inr s"
proof -
  obtain a0 where a0: "init_app B = Inr a0" using init_app_ok by blast
  then have a: "main_startup B = Inr (resize_app 800 800 a0)" by (simp add: main_startup_def)
  then have "app_reach B (app_of (loop_start (resize_app 800 800 a0)))" by (simp add: main_startup_reach)
  from main_loop_progress [OF this] a show ?thesis by (simp add: main_program_def)
qed

lemma main_program_fps_ok:
  assumes "main_program B fis = Inr s" "length fis < 2 ^ 31"
  shows "fps_ok s"
proof -
  from assms(1) obtain a where a: "main_startup B = Inr a"
    and l: "main_loop fis (loop_start a) = Inr s"
    by (auto simp: main_program_def bindE_Inr_iff)
  from a have "calls a = [ShaderInit, MeshInit]"
    by (auto simp: main_startup_def bindE_Inr_iff Let_def elim: init_app_Inr)
  with assms(2) show "fps_ok s"
    by (intro main_loop_fps [OF l]) (simp_all add: fps_ok_def)
qed

lemma main_program_8: "\<exists>s. main_program 8 fis = Inr s"
  by (rule main_program_progress)

text \<open>The loop state right after start-up, and one iteration's input with only keys
  held.\<close>

lemma start_camera: "camera (projr (main_startup 8)) = activate default_camera"
  by (simp add: main_startup_def init_app_def create_mvp_ubo_def gl_buffers_init_def gl_buffer_defs
      resize_app_def reshape_def init_compositor_def targets_per_viewport_def Let_def)

subsection \<open>Properties of the main loop\<close>

text \<open>
  C11: along every run of \<open>main\<close>, whatever keys, wheel moves and mouse drags the
  window reports, the camera's distance never drops below the minimum and its pitch
  stays within the clamp range (spec section 8: e.g. 1000 frames with S held).
\<close>

theorem main_program_camera_bounds:
  assumes "main_program B fis = Inr s"
  shows "min_distance \<le> cam_distance (camera (app_of s)) \<and>
         - pitch_limit \<le> cam_pitch (camera (app_of s)) \<and> cam_pitch (camera (app_of s)) \<le> pitch_limit"
proof -
  from assms have "app_inv B (app_of s)" by (intro app_reach_inv main_program_reach)
  then show ?thesis by (simp add: app_inv_def cam_inv_def)
qed

theorem main_program_camera_bounds_witness:
  "\<exists>s. main_program 8 (replicate 1000 \<lparr>clock_now = 0, keys_down = [Key_S], frame_frags = [], events = []\<rparr>) = Inr s \<and>
        min_distance \<le> cam_distance (camera (app_of s))"
proof -
  obtain s where r: "main_program 8 (replicate 1000 \<lparr>clock_now = 0, keys_down = [Key_S], frame_frags = [], events = []\<rparr>) = Inr s"
    using main_program_8 by blast
  show ?thesis using main_program_camera_bounds [OF r] r by blast
qed

text \<open>
  C12: from every reachable state, with or without render targets, no iteration of
  the loop ends in a frame error, whatever the window reports: the mapping of the
  orphaned buffer never fails, so the null-pointer write of line 101 is unreachable.
\<close>

theorem main_loop_no_frame_error:
  assumes "app_reach B (app_of s)"
  shows "\<exists>s'. main_loop fis s = Inr s'"
  using assms by (rule main_loop_progress)

theorem main_loop_no_frame_error_witness:
  "\<exists>s'. main_loop [\<lparr>clock_now = 2, keys_down = [Key_A], frame_frags = [Opaque (1/2) 1],
                      events = [Resized 0 0, MouseWheelMoved (-3)]\<rparr>]
            (loop_start (projr (main_startup 8))) = Inr s'"
  by (rule main_loop_no_frame_error [where B = 8]) (simp add: start_reach)

text \<open>
  C13: an iteration whose event queue holds \<open>Closed\<close> is the last one: the loop
  renders no frame after the window is closed.
\<close>

theorem closed_ends_loop:
  assumes "Closed \<in> set (events fi)"
  shows "main_loop (fi # fis) s = main_loop [fi] s"
  using assms by (simp add: Let_def handle_events_window main_loop_closed bindE_def split: sum.splits)

theorem closed_ends_loop_witness:
  "main_loop [\<lparr>clock_now = 0, keys_down = [], frame_frags = [], events = [Closed]\<rparr>,
              \<lparr>clock_now = 0, keys_down = [Key_W], frame_frags = [], events = []\<rparr>]
     (loop_start (projr (main_startup 8))) =
   main_loop [\<lparr>clock_now = 0, keys_down = [], frame_frags = [], events = [Closed]\<rparr>]
     (loop_start (projr (main_startup 8)))"
  by (rule closed_ends_loop) simp

text \<open>
  C25: holding W for one frame and S for the next moves the camera exactly as one
  \<open>zoom(1)\<close> (spec section 8), from every camera state that satisfies the clamp
  invariant.
\<close>

theorem keys_w_then_s_net_zoom:
  assumes "cam_inv (camera (app_of s))"
  shows "camera (app_of (poll_keys [Key_S] (poll_keys [Key_W] s))) = zoom 1 (camera (app_of s))"
proof -
  from assms have "min_distance \<le> cam_distance (camera (app_of s)) + 2" by (simp add: cam_inv_def)
  then have "zoom (-1) (zoom 2 (camera (app_of s))) = zoom 1 (camera (app_of s))"
    by (simp add: zoom_zoom)
  then show ?thesis by (simp add: poll_keys_def update_camera_def)
qed

theorem keys_w_then_s_net_zoom_witness:
  "camera (app_of (poll_keys [Key_S] (poll_keys [Key_W]
      (loop_start (projr (main_startup 8)))))) = zoom 1 (activate default_camera)"
  using keys_w_then_s_net_zoom [of "(loop_start (projr (main_startup 8)))"]
  by (simp add: start_camera cam_inv_activate cam_inv_default)

text \<open>
  C26: the converse order does not commute: at the minimum distance, holding S
  and then W moves the camera exactly as one \<open>zoom(2)\<close>, because the S step is
  clamped away, and that is not one \<open>zoom(1)\<close> (the spec's "commutativity of
  linear zoom deltas" needs the W-first order of C25).
\<close>

theorem keys_s_then_w_not_net_zoom:
  assumes "cam_distance (camera (app_of s)) = min_distance"
  shows "camera (app_of (poll_keys [Key_W] (poll_keys [Key_S] s))) = zoom 2 (camera (app_of s)) \<and>
         zoom 2 (camera (app_of s)) \<noteq> zoom 1 (camera (app_of s))"
proof
  from assms have "zoom (-1) (camera (app_of s)) = camera (app_of s)"
    by (simp add: zoom_def min_distance_def)
  then show "camera (app_of (poll_keys [Key_W] (poll_keys [Key_S] s))) = zoom 2 (camera (app_of s))"
    by (simp add: poll_keys_def update_camera_def)
next
  show "zoom 2 (camera (app_of s)) \<noteq> zoom 1 (camera (app_of s))"
  proof
    assume "zoom 2 (camera (app_of s)) = zoom 1 (camera (app_of s))"
    then have "cam_distance (zoom 2 (camera (app_of s))) = cam_distance (zoom 1 (camera (app_of s)))" by simp
    with assms show False by (simp add: zoom_def min_distance_def)
  qed
qed

theorem keys_s_then_w_not_net_zoom_witness:
  "camera (app_of (poll_keys [Key_W] (poll_keys [Key_S]
      (loop_start ((projr (main_startup 8))\<lparr>camera := default_camera\<lparr>cam_distance := min_distance\<rparr>\<rparr>)))))
   = zoom 2 (default_camera\<lparr>cam_distance := min_distance\<rparr>) \<and>
   zoom 2 (default_camera\<lparr>cam_distance := min_distance\<rparr>) \<noteq> zoom 1 (default_camera\<lparr>cam_distance := min_distance\<rparr>)"
  using keys_s_then_w_not_net_zoom
    [of "loop_start ((projr (main_startup 8))\<lparr>camera := default_camera\<lparr>cam_distance := min_distance\<rparr>\<rparr>)"]
  by simp

text \<open>
  C28: for mouse coordinates of magnitude below \<open>2^30\<close> the rotation a drag step
  gives is the exact \<open>-(x - prevX) * 0.008\<close>: the \<open>int\<close> subtraction and
  negation of lines 209--214 do not wrap.
\<close>

theorem mouse_delta_no_wrap:
  assumes "\<bar>cur\<bar> < 2 ^ 30" "\<bar>prev\<bar> < 2 ^ 30"
  shows "mouse_delta cur prev = - real_of_int (cur - prev) * (8 / 1000)"
  using assms by (simp add: mouse_delta_def Let_def)

theorem mouse_delta_no_wrap_witness:
  "mouse_delta 700 100 = - 600 * (8 / 1000)"
  using mouse_delta_no_wrap [of 700 100] by simp

text \<open>
  C29: the frame counter accounts for every rendered frame: the rates printed so far
  plus the current count equal the number of frames \<open>enterFrame()\<close> has rendered,
  for any run shorter than \<open>2^31\<close> iterations (beyond that \<open>numFrames++\<close> could
  wrap).
\<close>

theorem main_program_fps_accounting:
  assumes "main_program B fis = Inr s" "length fis < 2 ^ 31"
  shows "sum_list (fps_log s) + numFrames s = int (count_list (calls (app_of s)) MeshRender)"
  using main_program_fps_ok [OF assms] by (simp add: fps_ok_def)

theorem main_program_fps_accounting_witness:
  "\<exists>s. main_program 8 [\<lparr>clock_now = 1 / 2, keys_down = [], frame_frags = [], events = []\<rparr>,
                       \<lparr>clock_now = 3 / 2, keys_down = [], frame_frags = [], events = []\<rparr>,
                       \<lparr>clock_now = 1 / 5, keys_down = [], frame_frags = [], events = []\<rparr>] = Inr s \<and>
        sum_list (fps_log s) + numFrames s = int (count_list (calls (app_of s)) MeshRender)"
proof -
  obtain s where r: "main_program 8 [\<lparr>clock_now = 1 / 2, keys_down = [], frame_frags = [], events = []\<rparr>,
                       \<lparr>clock_now = 3 / 2, keys_down = [], frame_frags = [], events = []\<rparr>,
                       \<lparr>clock_now = 1 / 5, keys_down = [], frame_frags = [], events = []\<rparr>] = Inr s"
    using main_program_8 by blast
  show ?thesis using main_program_fps_accounting [OF r] r by simp
qed

text \<open>
  C23: the path of a failed allocation.  When the driver has less texture memory
  than one set of render targets needs, every \<open>reshapeTransparency\<close> fails
  and the compositor never gets targets.  The C++ calls into the compositor
  return \<open>void\<close>, so the run carries on: every frame still uploads, prepares
  the shaders and renders, every compositor call is rejected, nothing is
  composited and the framebuffer keeps the clear value.  Spec section 7 asks that
  this error is fatal to the frame and propagated; the code ignores it.
\<close>

theorem main_program_no_texture_memory:
  assumes "B < targets_per_viewport"
  shows "\<exists>s. main_program B fis = Inr s \<and> comp_targets (transp (app_of s)) = None \<and>
             comp_output (transp (app_of s)) = None \<and> framebuffer (app_of s) = 0"
proof -
  obtain s where r: "main_program B fis = Inr s" using main_program_progress by blast
  from r have "app_reach B (app_of s)" by (rule main_program_reach)
  from app_reach_small_budget [OF this assms] r show ?thesis by blast
qed

theorem main_program_no_texture_memory_witness:
  "\<exists>s. main_program 3 [\<lparr>clock_now = 0, keys_down = [Key_W], frame_frags = [Opaque (1/2) 1], events = [Resized 640 480]\<rparr>] = Inr s \<and>
     comp_targets (transp (app_of s)) = None \<and> comp_output (transp (app_of s)) = None \<and> framebuffer (app_of s) = 0"
  by (rule main_program_no_texture_memory) (simp add: targets_per_viewport_def)

text \<open>
  C31: the printed frame rates are positive.  Each value \<open>std::cout\<close> prints at
  line 147 counts the frames since the previous print, the current one included,
  so along every run shorter than \<open>2^31\<close> iterations it is at least 1.
  \<open>numFrames++\<close> runs before the test of line 145 and cannot have wrapped to a
  negative value.
\<close>

theorem main_program_fps_positive:
  assumes "main_program B fis = Inr s" "length fis < 2 ^ 31"
  shows "\<forall>x\<in>set (fps_log s). 1 \<le> x"
  using main_program_fps_ok [OF assms] by (simp add: fps_ok_def list_all_iff)

theorem main_program_fps_positive_witness:
  "\<exists>s. main_program 8 [\<lparr>clock_now = 1 / 2, keys_down = [], frame_frags = [], events = []\<rparr>,
                       \<lparr>clock_now = 3 / 2, keys_down = [], frame_frags = [], events = []\<rparr>] = Inr s \<and>
        (\<forall>x\<in>set (fps_log s). 1 \<le> x)"
proof -
  obtain s where r: "main_program 8 [\<lparr>clock_now = 1 / 2, keys_down = [], frame_frags = [], events = []\<rparr>,
                       \<lparr>clock_now = 3 / 2, keys_down = [], frame_frags = [], events = []\<rparr>] = Inr s"
    using main_program_8 by blast
  show ?thesis using main_program_fps_positive [OF r] r by simp
qed

end
