(* ===== verification/WindowLoop.thy ===== *)
theory WindowLoop
  imports MainLoop
begin

text \<open>
  The outer loop \<open>while (window->IsOpened())\<close> of \<open>main\<close> (\<open>src/src/main.cpp\<close>
  lines 140--239) over an unbounded feed of window inputs: \<open>inp i\<close> is what the
  window reports in iteration \<open>i\<close>.  The C++ loop need not end, so the model is
  a \<open>partial_function\<close> in the option monad: \<open>None\<close> is a run that never leaves
  the loop.  \<open>main_window\<close> is the whole of \<open>main\<close> on such a feed.
  The lemmas show that the unbounded loop and the list model \<open>main_loop\<close> of
  \<open>MainLoop\<close> agree on every prefix after which the run is over.  They also show
  that the loop returns as soon as an iteration's events contain \<open>Closed\<close>, after
  rendering exactly one frame per iteration, and that it never returns while the
  window stays open.  As in \<open>main_loop\<close>, the only exit other than the closed
  window is the frame error of a failed buffer mapping (line 101's null write).
\<close>

partial_function (option) run_window ::
  "(nat \<Rightarrow> frame_input) \<Rightarrow> nat \<Rightarrow> loop_state \<Rightarrow> (frame_error + loop_state) option" where
  "run_window inp i s =
     (if \<not> window_open s then Some (Inr s)
      else let s1 = count_frame (clock_now (inp i)) s
           in case enter_frame (frame_frags (inp i)) (app_of s1) of
                Inl e \<Rightarrow> Some (Inl e)
              | Inr a \<Rightarrow>
                  let s2 = poll_keys (keys_down (inp i)) (s1\<lparr>app_of := a\<rparr>)
                  in run_window inp (Suc i) (handle_events (events (inp i)) s2))"

definition main_window :: "nat \<Rightarrow> (nat \<Rightarrow> frame_input) \<Rightarrow> (frame_error + loop_state) option" where
  "main_window budget inp =
     (case main_startup budget of Inl e \<Rightarrow> Some (Inl e) | Inr a \<Rightarrow> run_window inp 0 (loop_start a))"

text \<open>The body of one iteration (lines 144--238), shared by both loop models.\<close>

definition loop_step :: "frame_input \<Rightarrow> loop_state \<Rightarrow> frame_error + loop_state" where
  "loop_step fi s =
     (let s1 = count_frame (clock_now fi) s
      in bindE (enter_frame (frame_frags fi) (app_of s1)) (\<lambda>a.
           Inr (handle_events (events fi) (poll_keys (keys_down fi) (s1\<lparr>app_of := a\<rparr>)))))"

lemma main_loop_step:
  "main_loop (fi # fis) s =
     (if \<not> window_open s then Inr s else bindE (loop_step fi s) (main_loop fis))"
  by (simp add: loop_step_def Let_def bindE_def split: sum.splits)

lemma run_window_step:
  "run_window inp i s =
     (if \<not> window_open s then Some (Inr s)
      else case loop_step (inp i) s of Inl e \<Rightarrow> Some (Inl e) | Inr s' \<Rightarrow> run_window inp (Suc i) s')"
  by (subst run_window.simps) (simp add: loop_step_def Let_def bindE_def split: sum.splits)

text \<open>A run of the list model that ends with the window closed, or in an error, is
  the run of the window loop on the same inputs.\<close>

definition loop_done :: "frame_error + loop_state \<Rightarrow> bool" where
  "loop_done r = (case r of Inl e \<Rightarrow> True | Inr s \<Rightarrow> \<not> window_open s)"

lemmas loop_unfold = main_loop_step run_window_step upt_conv_Cons

declare main_loop.simps(2) [simp del]

lemma run_window_main_loop:
  "loop_done (main_loop (map inp [i..<i + n]) s) \<Longrightarrow> run_window inp i s = Some (main_loop (map inp [i..<i + n]) s)"
proof (induction n arbitrary: i s)
  case 0
  then show ?case by (simp add: loop_done_def run_window_step)
next
  case (Suc n)
  show ?case
  proof (cases "window_open s")
    case False
    then show ?thesis by (simp add: loop_unfold del: upt_Suc)
  next
    case True
    show ?thesis
    proof (cases "loop_step (inp i) s")
      case (Inl e)
      with True show ?thesis by (simp add: loop_unfold del: upt_Suc)
    next
      case (Inr s')
      with True Suc.prems have "loop_done (main_loop (map inp [Suc i..<Suc i + n]) s')"
        by (simp add: loop_unfold del: upt_Suc)
      from Suc.IH [OF this] True Inr show ?thesis by (simp add: loop_unfold del: upt_Suc)
    qed
  qed
qed

lemma loop_step_window:
  "loop_step fi s = Inr s' \<Longrightarrow> window_open s' = (window_open s \<and> Closed \<notin> set (events fi))"
  by (auto simp: loop_step_def Let_def bindE_Inr_iff handle_events_window)

lemma main_loop_closes:
  "Closed \<in> set (events (last fis)) \<Longrightarrow> fis \<noteq> [] \<Longrightarrow> loop_done (main_loop fis s)"
proof (induction fis arbitrary: s)
  case Nil
  then show ?case by simp
next
  case (Cons fi fis)
  show ?case
  proof (cases "window_open s")
    case False
    then show ?thesis by (simp add: main_loop_step loop_done_def)
  next
    case True
    show ?thesis
    proof (cases "loop_step fi s")
      case (Inl e)
      with True show ?thesis by (simp add: main_loop_step loop_done_def)
    next
      case (Inr s')
      show ?thesis
      proof (cases "fis = []")
        case True
        with Cons.prems Inr \<open>window_open s\<close> show ?thesis
          by (simp add: main_loop_step loop_done_def loop_step_window)
      next
        case False
        with Cons.prems have "loop_done (main_loop fis s')" by (intro Cons.IH) simp_all
        with Inr \<open>window_open s\<close> show ?thesis by (simp add: main_loop_step)
      qed
    qed
  qed
qed


lemma main_loop_snoc:
  "main_loop (fis @ [fi]) s = bindE (main_loop fis s) (main_loop [fi])"
proof (induction fis arbitrary: s)
  case Nil
  then show ?case by (simp add: main_loop_closed)
next
  case (Cons x fis)
  then show ?case
    by (auto simp: main_loop_step main_loop_closed bindE_def split: sum.splits)
qed

definition loop_live :: "nat \<Rightarrow> loop_state \<Rightarrow> bool" where
  "loop_live B s \<longleftrightarrow> app_reach B (app_of s) \<and> comp_targets (transp (app_of s)) \<noteq> None"

lemma loop_step_live:
  assumes "loop_live B s"
  obtains s' where "loop_step fi s = Inr s'" "loop_live B s'"
    "count_list (calls (app_of s')) MeshRender = Suc (count_list (calls (app_of s)) MeshRender)"
proof -
  from assms obtain t where r: "app_reach B (app_of s)" and t: "comp_targets (transp (app_of s)) = Some t"
    by (auto simp: loop_live_def)
  obtain g where f: "enter_frame (frame_frags fi) (app_of s) = Inr (frame_post (frame_frags fi) g (app_of s))"
    using r t by (rule enter_frame_ok)
  let ?a = "frame_post (frame_frags fi) g (app_of s)"
  let ?s' = "handle_events (events fi) (poll_keys (keys_down fi) ((count_frame (clock_now fi) s)\<lparr>app_of := ?a\<rparr>))"
  have "app_reach B ?a" using r f by (rule app_reach.frame)
  then have "app_reach B (app_of ?s')" by (intro handle_events_reach poll_keys_reach) simp
  moreover have "comp_targets (transp (app_of ?s')) \<noteq> None"
    by (intro handle_events_targets) (simp add: t frame_post_def)
  ultimately have "loop_live B ?s'" by (simp add: loop_live_def)
  moreover have "loop_step fi s = Inr ?s'" using f by (simp add: loop_step_def Let_def)
  moreover have "count_list (calls (app_of ?s')) MeshRender = Suc (count_list (calls (app_of s)) MeshRender)"
    using enter_frame_calls [OF f] by simp
  ultimately show ?thesis using that by blast
qed

lemma main_loop_open_run:
  "loop_live B s \<Longrightarrow> window_open s \<Longrightarrow> \<forall>fi\<in>set fis. Closed \<notin> set (events fi) \<Longrightarrow>
   \<exists>s'. main_loop fis s = Inr s' \<and> loop_live B s' \<and> window_open s' \<and>
        count_list (calls (app_of s')) MeshRender = count_list (calls (app_of s)) MeshRender + length fis"
proof (induction fis arbitrary: s)
  case Nil
  then show ?case by simp
next
  case (Cons fi fis)
  obtain s1 where s1: "loop_step fi s = Inr s1" "loop_live B s1"
    "count_list (calls (app_of s1)) MeshRender = Suc (count_list (calls (app_of s)) MeshRender)"
    using Cons.prems(1) by (rule loop_step_live)
  have "window_open s1" using loop_step_window [OF s1(1)] Cons.prems(2,3) by simp
  with Cons.IH [OF s1(2)] Cons.prems(3) obtain s' where
    "main_loop fis s1 = Inr s'" "loop_live B s'" "window_open s'"
    "count_list (calls (app_of s')) MeshRender = count_list (calls (app_of s1)) MeshRender + length fis"
    by auto
  with s1 Cons.prems(2) show ?case by (simp add: main_loop_step)
qed

lemma run_window_live_diverges:
  assumes "run_window inp i s = Some r"
  shows "window_open s \<longrightarrow> loop_live B s \<longrightarrow> (\<forall>j\<ge>i. Closed \<notin> set (events (inp j))) \<longrightarrow> False"
proof (rule run_window.raw_induct
    [where P = "\<lambda>inp i s r. window_open s \<longrightarrow> loop_live B s \<longrightarrow> (\<forall>j\<ge>i. Closed \<notin> set (events (inp j))) \<longrightarrow> False",
     OF _ assms])
  fix f :: "(nat \<Rightarrow> frame_input) \<Rightarrow> nat \<Rightarrow> loop_state \<Rightarrow> (frame_error + loop_state) option"
    and inp :: "nat \<Rightarrow> frame_input" and i s r
  assume IH: "\<And>inp i s r. f inp i s = Some r \<Longrightarrow>
                window_open s \<longrightarrow> loop_live B s \<longrightarrow> (\<forall>j\<ge>i. Closed \<notin> set (events (inp j))) \<longrightarrow> False"
    and eq: "(if \<not> window_open s then Some (Inr s)
      else let s1 = count_frame (clock_now (inp i)) s
           in case enter_frame (frame_frags (inp i)) (app_of s1) of
                Inl e \<Rightarrow> Some (Inl e)
              | Inr a \<Rightarrow>
                  let s2 = poll_keys (keys_down (inp i)) (s1\<lparr>app_of := a\<rparr>)
                  in f inp (Suc i) (handle_events (events (inp i)) s2)) = Some r"
  show "window_open s \<longrightarrow> loop_live B s \<longrightarrow> (\<forall>j\<ge>i. Closed \<notin> set (events (inp j))) \<longrightarrow> False"
  proof (intro impI)
    assume w: "window_open s" and l: "loop_live B s" and nc: "\<forall>j\<ge>i. Closed \<notin> set (events (inp j))"
    obtain s1 where s1: "loop_step (inp i) s = Inr s1" "loop_live B s1"
      using l by (rule loop_step_live)
    from eq w s1(1) have "f inp (Suc i) s1 = Some r"
      by (simp add: loop_step_def Let_def bindE_def split: sum.splits)
    moreover have "window_open s1" using loop_step_window [OF s1(1)] w nc by simp
    moreover have "\<forall>j\<ge>Suc i. Closed \<notin> set (events (inp j))" using nc by simp
    ultimately show False using IH s1(2) by blast
  qed
qed

lemma main_startup_live:
  "main_startup B = Inr a \<Longrightarrow> comp_targets (transp a) \<noteq> None \<Longrightarrow> loop_live B (loop_start a)"
  by (simp add: loop_live_def main_startup_reach)

subsection \<open>Properties of the window loop\<close>

text \<open>
  C19: termination.  When some iteration's event queue contains \<open>Closed\<close>,
  \<open>main\<close> returns, for every texture budget and whatever the earlier inputs: the
  loop stops at that iteration at the latest, or earlier with a frame error.
\<close>

theorem main_window_terminates:
  assumes "Closed \<in> set (events (inp k))"
  shows "\<exists>r. main_window B inp = Some r"
proof (cases "main_startup B")
  case (Inl e)
  then show ?thesis by (simp add: main_window_def)
next
  case (Inr a)
  have "loop_done (main_loop (map inp [0..<0 + Suc k]) (loop_start a))"
    using assms by (intro main_loop_closes) simp_all
  from run_window_main_loop [OF this] Inr show ?thesis by (simp add: main_window_def)
qed

theorem main_window_terminates_witness:
  "\<exists>r. main_window 8 (\<lambda>j. \<lparr>clock_now = 0, keys_down = [], frame_frags = [], events = if j = 3 then [Closed] else []\<rparr>) = Some r"
  by (rule main_window_terminates [where k = 3]) simp

text \<open>
  C18: once start-up has render targets, \<open>main\<close> ends exactly at the first
  iteration \<open>k\<close> whose events contain \<open>Closed\<close>.  It ends with the window closed
  and no error, after rendering exactly \<open>k + 1\<close> frames: one per iteration, the
  closing one included, and none after it.
\<close>

theorem main_window_renders_until_closed:
  assumes "main_startup B = Inr a" "comp_targets (transp a) \<noteq> None"
    and "\<forall>j<k. Closed \<notin> set (events (inp j))" "Closed \<in> set (events (inp k))"
  shows "\<exists>s. main_window B inp = Some (Inr s) \<and> \<not> window_open s \<and>
             count_list (calls (app_of s)) MeshRender = Suc k"
proof -
  have l0: "loop_live B (loop_start a)" using assms(1,2) by (rule main_startup_live)
  have c0: "calls a = [ShaderInit, MeshInit]"
    using assms(1) by (auto simp: main_startup_def bindE_Inr_iff Let_def elim: init_app_Inr)
  obtain s1 where m1: "main_loop (map inp [0..<k]) (loop_start a) = Inr s1" and l1: "loop_live B s1"
    and w1: "window_open s1" and c1: "count_list (calls (app_of s1)) MeshRender = k"
    using main_loop_open_run [OF l0, of "map inp [0..<k]"] assms(3) c0 by auto
  obtain s2 where s2: "loop_step (inp k) s1 = Inr s2"
    and c2: "count_list (calls (app_of s2)) MeshRender = Suc (count_list (calls (app_of s1)) MeshRender)"
    using l1 by (rule loop_step_live)
  have w2: "\<not> window_open s2" using loop_step_window [OF s2] assms(4) by simp
  have m: "main_loop (map inp [0..<0 + Suc k]) (loop_start a) = Inr s2"
    using m1 w1 s2 w2 by (simp add: main_loop_snoc main_loop_step main_loop_closed)
  then have "loop_done (main_loop (map inp [0..<0 + Suc k]) (loop_start a))" using w2 by (simp add: loop_done_def)
  from run_window_main_loop [OF this] m assms(1) w2 c1 c2 show ?thesis
    by (simp add: main_window_def)
qed

theorem main_window_renders_until_closed_witness:
  "\<exists>s. main_window 8 (\<lambda>j. \<lparr>clock_now = 0, keys_down = [], frame_frags = [], events = if j = 3 then [Closed] else []\<rparr>) = Some (Inr s) \<and>
       \<not> window_open s \<and> count_list (calls (app_of s)) MeshRender = 4"
  using main_window_renders_until_closed [OF main_startup_8(1), where k = 3] by (simp add: main_startup_8(2))

text \<open>
  C20: the loop only stops when the window closes.  Once start-up has render targets
  and no iteration ever reports \<open>Closed\<close>, \<open>main\<close> never returns: it neither
  stops on its own nor ends in an error.
\<close>

theorem main_window_runs_while_open:
  assumes "main_startup B = Inr a" "comp_targets (transp a) \<noteq> None"
    and "\<forall>j. Closed \<notin> set (events (inp j))"
  shows "main_window B inp = None"
proof (cases "main_window B inp")
  case (Some r)
  then have "run_window inp 0 (loop_start a) = Some r" using assms(1) by (simp add: main_window_def)
  from run_window_live_diverges [OF this, of B] assms main_startup_live show ?thesis by simp
qed

theorem main_window_runs_while_open_witness:
  "main_window 8 (\<lambda>j. \<lparr>clock_now = 0, keys_down = [Key_W], frame_frags = [], events = []\<rparr>) = None"
  using main_window_runs_while_open [OF main_startup_8(1)] by (simp add: main_startup_8(2))

end
