(* ===== verification/MeshLibrary.thy ===== *)
theory MeshLibrary
  imports Frame
begin

text \<open>
  The mesh library's \<open>render()\<close> (\<open>Globals::meshLibrary.render()\<close>, line 108 of
  \<open>src/src/main.cpp\<close>).  Its source is not part of the repository.  Spec
  sections 6 and 9 give its contract: \<open>render()\<close> classifies each piece of
  geometry as opaque or translucent (a tagged variant) and submits it to the
  matching target.  Section 4.4 separates opaque rasterisation from translucent
  accumulation.  At the one pixel the compositor model keeps, each geometry item
  covering the pixel is one \<open>fragment\<close>.  \<open>mesh_render\<close> is the two-pass
  dispatch: the opaque items in submission order, then the translucent ones.

  The lemmas show that opaque fragments commute under \<open>GL_LEQUAL\<close> unless two
  differ at the same depth.  Hence a frame of the two-pass render depends only on
  the multiset of items and composites the abstract \<open>oit_spec\<close>.
\<close>

fun frag_depth :: "fragment \<Rightarrow> real" where
  "frag_depth (Opaque d _) = d"
| "frag_depth (Translucent d _ _ _) = d"

text \<open>\<open>render()\<close>: the opaque pass, then the translucent pass.\<close>

definition mesh_render :: "fragment list \<Rightarrow> fragment list" where
  "mesh_render items = filter (\<lambda>f. \<not> is_translucent f) items @ filter is_translucent items"

text \<open>Opaque items at equal depth are the same item: \<open>GL_LEQUAL\<close> lets the later
  of two equal-depth opaque fragments win, the one case where their order shows.\<close>

definition opaque_ties_agree :: "fragment list \<Rightarrow> bool" where
  "opaque_ties_agree items \<longleftrightarrow>
     (\<forall>f\<in>set items. \<forall>g\<in>set items.
        \<not> is_translucent f \<longrightarrow> \<not> is_translucent g \<longrightarrow> frag_depth f = frag_depth g \<longrightarrow> f = g)"

lemma blend_opaque_commute:
  assumes "\<not> is_translucent f" "\<not> is_translucent g" "frag_depth f = frag_depth g \<longrightarrow> f = g"
  shows "blend_fragment (blend_fragment p f) g = blend_fragment (blend_fragment p g) f"
proof -
  obtain d1 c1 where f: "f = Opaque d1 c1" using assms(1) by (cases f) auto
  obtain d2 c2 where g: "g = Opaque d2 c2" using assms(2) by (cases g) auto
  show ?thesis using assms(3) by (auto simp: f g)
qed

lemma foldl_blend_opaque_perm:
  assumes "list_all (\<lambda>f. \<not> is_translucent f) os" "mset os = mset os'"
    and "\<forall>f\<in>set os. \<forall>g\<in>set os. frag_depth f = frag_depth g \<longrightarrow> f = g"
  shows "foldl blend_fragment p os = foldl blend_fragment p os'"
proof -
  have "List.fold (\<lambda>x q. blend_fragment q x) os = List.fold (\<lambda>x q. blend_fragment q x) os'"
  proof (rule fold_multiset_equiv)
    fix x y assume "x \<in> set os" "y \<in> set os"
    with assms(1,3) show "(\<lambda>q. blend_fragment q x) \<circ> (\<lambda>q. blend_fragment q y) =
                          (\<lambda>q. blend_fragment q y) \<circ> (\<lambda>q. blend_fragment q x)"
      by (auto simp: list_all_iff intro!: ext blend_opaque_commute)
  qed (rule assms(2))
  then show ?thesis by (simp add: foldl_conv_fold)
qed

lemma mesh_render_split:
  "list_all (\<lambda>f. \<not> is_translucent f) (filter (\<lambda>f. \<not> is_translucent f) items)"
  "list_all is_translucent (filter is_translucent items)"
  by (simp_all add: list_all_iff)

subsection \<open>Properties of the mesh library's dispatch\<close>

text \<open>
  C15: a frame with render targets that the program renders from the two-pass
  \<open>render()\<close> depends only on
  the multiset of geometry items covering the pixel, not on the order the library
  holds them in.  Opaque items at equal depth must agree.  The frame composites
  \<open>oit_spec\<close> of the opaque result and the multiset of translucent items
  (spec section 8, order independence, for whole scenes).
\<close>

theorem mesh_frame_order_independent:
  assumes "app_reach B a" "comp_targets (transp a) \<noteq> None"
    and "enter_frame (mesh_render items1) a = Inr a1"
    and "enter_frame (mesh_render items2) a = Inr a2"
    and "mset items1 = mset items2" "opaque_ties_agree items1"
  shows "framebuffer a1 = framebuffer a2 \<and>
         framebuffer a1 = oit_spec (opaque_color (foldl blend_fragment clear_pixel (filter (\<lambda>f. \<not> is_translucent f) items1)))
                                   (opaque_depth (foldl blend_fragment clear_pixel (filter (\<lambda>f. \<not> is_translucent f) items1)))
                                   (mset (filter is_translucent items1))"
proof -
  let ?os1 = "filter (\<lambda>f. \<not> is_translucent f) items1" and ?os2 = "filter (\<lambda>f. \<not> is_translucent f) items2"
  let ?ts1 = "filter is_translucent items1" and ?ts2 = "filter is_translucent items2"
  have o: "mset ?os1 = mset ?os2" "mset ?ts1 = mset ?ts2" using assms(5) by (simp_all add: mset_filter)
  have op: "foldl blend_fragment clear_pixel ?os1 = foldl blend_fragment clear_pixel ?os2"
    using assms(6) by (intro foldl_blend_opaque_perm [OF mesh_render_split(1) o(1)]) (auto simp: opaque_ties_agree_def)
  have f1: "framebuffer a1 = oit_spec (opaque_color (foldl blend_fragment clear_pixel ?os1))
                (opaque_depth (foldl blend_fragment clear_pixel ?os1)) (mset ?ts1)"
    using assms(1,2,3) mesh_render_split unfolding mesh_render_def by (rule frame_composite)
  have f2: "framebuffer a2 = oit_spec (opaque_color (foldl blend_fragment clear_pixel ?os2))
                (opaque_depth (foldl blend_fragment clear_pixel ?os2)) (mset ?ts2)"
    using assms(1,2,4) mesh_render_split unfolding mesh_render_def by (rule frame_composite)
  show ?thesis using f1 f2 op o(2) by simp
qed

theorem mesh_frame_order_independent_witness:
  "comp_targets (transp (projr (main_startup 8))) \<noteq> None \<and>
   (\<exists>a1 a2.
     enter_frame (mesh_render [Translucent (1/4) 1 (1/2) 1, Opaque (1/2) 1, Translucent (1/8) 0 (1/4) 2]) (projr (main_startup 8)) = Inr a1 \<and>
     enter_frame (mesh_render [Translucent (1/8) 0 (1/4) 2, Translucent (1/4) 1 (1/2) 1, Opaque (1/2) 1]) (projr (main_startup 8)) = Inr a2 \<and>
     framebuffer a1 = framebuffer a2)"
proof -
  obtain a1 where f1: "enter_frame (mesh_render [Translucent (1/4) 1 (1/2) 1, Opaque (1/2) 1, Translucent (1/8) 0 (1/4) 2])
                         (projr (main_startup 8)) = Inr a1"
    by (rule start_frame)
  obtain a2 where f2: "enter_frame (mesh_render [Translucent (1/8) 0 (1/4) 2, Translucent (1/4) 1 (1/2) 1, Opaque (1/2) 1])
                         (projr (main_startup 8)) = Inr a2"
    by (rule start_frame)
  have "framebuffer a1 = framebuffer a2"
    using mesh_frame_order_independent [OF start_reach _ f1 f2]
    by (simp add: main_startup_8(2) opaque_ties_agree_def add_mset_commute)
  with f1 f2 show ?thesis by (simp add: main_startup_8(2))
qed

end
