(* ===== verification/Spec2Isabelle.thy ===== *)
theory Spec2Isabelle
  imports WindowLoop MeshLibrary
begin

text \<open>
  A verification development for the frame loop of Mass-Occlusion-Culling, whose
  one source file is \<open>src/src/main.cpp\<close>.  The program is an SFML/OpenGL viewer:
  \<open>main()\<close> opens a window, calls \<open>init()\<close> and \<open>resize(800, 800)\<close>, then loops
  while the window is open.  Each iteration counts frames for the fps print, calls
  \<open>enterFrame()\<close>, polls the W/S/A/D keys for the camera, and handles the window's
  events (resize, mouse drag, wheel, close).  \<open>enterFrame()\<close> multiplies the
  projection by the camera's view matrix, uploads the product into a uniform buffer
  by orphaning it, and renders the meshes through an order-independent
  transparency (OIT) compositor.

  Theories, leaf first (each opens with its own summary):
  \<^item> \<open>Prelude\<close> has type names for the C++ scalars: \<open>float\<close> as \<^typ>\<open>real\<close>,
    \<open>int\<close> as \<^typ>\<open>int\<close> with the 32-bit wrap \<open>i32\<close>, and \<open>GLuint\<close> as
    \<^typ>\<open>nat\<close>.  It also holds the named collections, the error monad \<open>bindE\<close>
    on \<open>error + 'a\<close>, and shared lemmas on clamping, permuted sums and fresh names.
  \<^item> \<open>Matrix\<close> models glm's column-major \<open>vec4\<close>/\<open>mat4\<close> and the two products.
    The matrix product acts as the composition of the maps and is associative.
    \<open>dot3\<close> and \<open>mrow3\<close> read the rotation part of a matrix.
  \<^item> \<open>Projection\<close> holds the globals \<open>projectionMatrix\<close>, \<open>fzNear\<close>, \<open>fzFar\<close> and
    \<open>frustumScale\<close>.  \<open>init_projection_with\<close> is their set-up in \<open>init()\<close>
    (lines 36--47) and \<open>resize_projection\<close> their update in \<open>resize()\<close>
    (lines 76--77).  The fixed-function stages are modelled too: perspective
    divide, \<open>glDepthRange(0, 1)\<close> and \<open>glViewport\<close>.  \<open>glm_perspective\<close> is
    glm's \<open>perspective\<close>, the reference the hand-built matrix is compared with.
    Claims: C7 (near/far plane map to depth 0/1), C8 (depth in [0,1] and strictly
    monotone), C27 (square pixels after any resize).
  \<^item> \<open>UniformChannel\<close> is an abstract OpenGL buffer-object model.  A buffer name
    points at a storage; storages are numbered by \<open>next_store\<close> and hold the
    \<open>mat4\<close> written through the mapped pointer.
    \<open>gl_map_buffer_range\<close> with \<open>GL_MAP_INVALIDATE_BUFFER_BIT\<close> orphans: it gives
    the name a fresh storage.  Otherwise it maps the current storage, and a
    synchronous mapping of a storage the GPU still reads is a stall.  The GPU's
    pending reads are the queue \<open>gpu_reads\<close>; a draw appends the storage bound to
    uniform binding 0 and \<open>gpu_retire\<close> pops.  \<open>create_mvp_ubo\<close> is lines 58--63 of
    \<open>init()\<close> and \<open>upload_mvp\<close> lines 96--103 of \<open>enterFrame()\<close>.  The inductive
    \<open>chan_reach\<close> interleaves uploads, draws, retirements and rebinds arbitrarily.
    Claims: C1 (the upload never fails, never stalls and never changes a pending
    read), C6 (the next draw reads the new matrix), C14 (binding 0 keeps naming
    the UBO).
  \<^item> \<open>Compositor\<close> is the \<open>Transparency\<close> library on one pixel.  Its records
    hold the phase (\<open>Idle\<close>/\<open>Accepting\<close>), the render targets and a texture
    budget.  \<open>reshape\<close>, \<open>prepare\<close>, \<open>draw\<close> and \<open>finalize\<close> model
    \<open>reshapeTransparency\<close>, \<open>prepareTransparency\<close>, the draws and
    \<open>finalizeTransparency\<close>; a rejected call returns an error and changes
    nothing.  Translucent fragments are blended as a weighted sum with product
    revealage.  \<open>oit_spec\<close> is the abstract composite over a multiset of
    translucent fragments; \<open>resolve_refines_oit_spec\<close> shows the blend refines
    it.  \<open>comp_inv\<close> is texture conservation.
  \<^item> \<open>Camera\<close> models \<open>Camera1stPerson\<close>: focus, distance, yaw and pitch.
    \<open>zoom\<close> clamps the distance to at least \<open>min_distance\<close>, \<open>rotate\<close> clamps
    the pitch to 89 degrees, and \<open>view_matrix\<close> is the look-at matrix.
    \<open>cam_inv\<close> is preserved by every operation.  The camera frame is orthonormal,
    and the view matrix takes the eye to the origin and the focus onto the
    \<open>-z\<close> axis.
  \<^item> \<open>Frame\<close> holds the globals of \<open>main.cpp\<close> as the record \<open>app\<close>, with
    \<open>init_app\<close> (\<open>init()\<close>, lines 31--72), \<open>resize_app\<close> (\<open>resize()\<close>,
    lines 74--85), \<open>frame_mvp\<close> (line 95), \<open>enter_frame\<close> (\<open>enterFrame()\<close>,
    lines 87--111) and \<open>main_startup\<close> (lines 121--130).  The compositor's
    methods return \<open>void\<close> in C++, so \<open>enter_frame\<close> calls them through
    \<open>void_call\<close>: a rejected call leaves the compositor as it was and the frame
    goes on.  Its only error is a failed \<open>glMapBufferRange\<close>, after which line 101
    writes through a null pointer; the model ends the run there.  Calls into the
    shader and mesh libraries are recorded in the trace \<open>calls\<close>.  \<open>app_reach\<close>
    is reachability under init, resize, frame, camera and GPU steps, and
    \<open>app_inv\<close> is its invariant.  Claims: C2 (the frame's draw reads
    projection * view), C3 (the colour does not depend on the order of the
    translucent fragments), C4 (the frame protocol: prepare, render, back to
    Idle), C5 (a frame with targets refines \<open>oit_spec\<close>), C9 (a rejected resize
    keeps the targets), C10 (two resizes to the same size do not leak textures),
    C16 (the projection matrix is \<open>glm::perspective\<close> of the current aspect
    ratio), C17 (the view matrix of line 95 is orthonormal), C21 (the camera's
    focus is drawn at the viewport centre), C22 (the collaborators' call order),
    C24 (the culling and depth state of \<open>init()\<close> never changes), C30 (the render
    targets always have the stored size once it is positive).
  \<^item> \<open>MainLoop\<close> models \<open>main()\<close> over a finite list of inputs.  \<open>loop_state\<close>
    holds its locals, and \<open>loop_start\<close> their initial values (lines 132--138),
    the clock started at time 0.  Each iteration reads one \<open>frame_input\<close>: the
    clock's reading, keys held, the frame's fragments and the event queue.  The
    definitions are \<open>count_frame\<close> (lines 144--150, with \<open>clock.Reset()\<close>),
    \<open>poll_keys\<close> (156--171), \<open>handle_event\<close>/\<open>handle_events\<close> (174--238, with
    \<open>mouse_delta\<close> for 206--214), \<open>main_loop\<close> (140--239) and \<open>main_program\<close>
    (118--139).  Claims: C11 (camera bounds on every run), C12 (no frame error
    from any reachable state), C13 (Closed ends the loop), C23 (without texture
    memory for the targets the run carries on and composites nothing), C25/C26
    (the W/S zoom interplay), C28 (no int overflow in the mouse delta for
    coordinates below 2^30), C29 (fps accounting for runs below 2^31 frames), C31
    (every printed frame rate is at least 1).
  \<^item> \<open>WindowLoop\<close> models the same loop over an unbounded feed of inputs
    (\<open>nat \<Rightarrow> frame_input\<close>) as \<open>run_window\<close>, a \<open>partial_function\<close> in the
    option monad.  \<open>None\<close> is a run that never leaves
    \<open>while (window->IsOpened())\<close>.  \<open>main_window\<close> is the whole of \<open>main\<close>.
    Claims: C18 (with targets, \<open>main\<close> ends exactly at the first \<open>Closed\<close>, after
    one frame per iteration), C19 (termination once \<open>Closed\<close> arrives), C20 (no
    return while the window stays open).
  \<^item> \<open>MeshLibrary\<close> models the mesh library's \<open>render()\<close> from its contract
    (spec sections 4.4, 6, 9).  \<open>mesh_render\<close> dispatches the geometry
    covering a pixel as an opaque pass followed by a translucent pass.  Claim:
    C15 (a frame with targets depends only on the multiset of items, and
    composites \<open>oit_spec\<close>).

  Choices of the model.  Floats are idealised as reals: rounding, NaN and infinity
  are not modelled, and every theorem about a division states the divisor's sign as
  a hypothesis.  The trigonometric functions are not executable, so witnesses are
  closed by \<open>simp\<close> rather than by evaluation.  The loop is modelled twice.
  \<open>main_loop\<close> is structural recursion over a finite prefix of inputs, the run as
  observed so far.  \<open>run_window\<close> is the unbounded loop, where not returning is
  the value \<open>None\<close>.  Termination is proved as such (C18, C19): it says the value
  is \<open>Some\<close>, and no fuel bound is involved.  C-\<open>int\<close> arithmetic (frame counter,
  mouse coordinates) is kept at 32 bits through \<open>i32\<close>.  The theorems state the
  ranges in which no wrap occurs; \<open>mouse_delta_wraps\<close> shows that the wrap does
  happen outside them.

  Parts modelled from the spec, whose headers are not in the repository:
  \<open>Transparency.h\<close> (the compositor), \<open>Camera1stPerson.h\<close> (the camera),
  \<open>Utils.h\<close> (\<open>DEGREE_TO_RAD\<close>) and OpenGL's buffer-orphaning semantics.  The
  shader state and the mesh library are external collaborators whose headers
  are also missing: of the shader state only the order of its calls is modelled
  (the log \<open>calls\<close>), of the mesh library the order of its calls and \<open>render()\<close>
  as the two-pass dispatch of the geometry covering a pixel.  glm is a
  third-party library; the products, the matrix layout and \<open>perspective\<close> are
  written out as library semantics.

  Not modelled, and why.  The GLSL programs and the shader state's internals
  (how its uniform block reads the buffer), and the mesh library's geometry
  storage and instancing: their sources are not in the repository, and the spec
  specifies them only through their interfaces.  SFML window creation,
  \<open>Display()\<close> and console output: they are pure I/O, and what the program
  observes of them and of the clock is the \<open>frame_input\<close> records, and what it
  emits is \<open>fps_log\<close>.  glm beyond \<open>mat4\<close> products and \<open>perspective\<close>: the
  program uses nothing else of it.  Every line of \<open>main.cpp\<close> with behaviour is
  mapped to a definition; the lines left are includes, declarations and braces.

  Open points the model makes explicit rather than resolves.  The compositor keeps
  one representative pixel with one colour channel; pixels are independent in
  weighted-blended OIT, so a grid would repeat the same proofs.  What
  \<open>prepareTransparency(width, height)\<close> does with sizes that differ from its
  targets is left open by the spec, and the model ignores them (see the findings).
\<close>

end
